theory Spec2Isabelle
  imports Main "HOL-Library.AList"
begin

section \<open>JavaScript values\<close>

text \<open>
  The module \<^verbatim>\<open>useListParams.ts\<close> is dynamically typed where it matters: a page
  arrives from the URL as a string and from the store as a number, stored params hold
  \<^verbatim>\<open>null\<close> for unset fields, and the code tests truthiness, \<^verbatim>\<open>== null\<close> and
  \<^verbatim>\<open>typeof\<close>. Values are therefore modelled as a datatype of JavaScript values.

  Numbers are the integers and \<^verbatim>\<open>NaN\<close>: the numbers of this module are page indices
  and page sizes. Non-integer numbers and infinities are outside the model. Up to
  \<open>2^53\<close> in magnitude every integer is a JavaScript number; the theorems that state
  which number is read from a string, or written and read back, are stated up to that
  bound.

  A string is the list of its UTF-16 code units, of which the model has those below 256
  (the characters of Latin-1).

  An object is the list of its own enumerable properties, in the order in which
  \<^verbatim>\<open>Object.keys\<close> lists them.
\<close>

datatype jsnum = NaN | Fin int

datatype jsval =
    Undefined
  | Null
  | Bool bool
  | Num jsnum
  | Str string
  | Arr "jsval list"
  | Obj "(string \<times> jsval) list"

type_synonym jsobj = "(string \<times> jsval) list"

text \<open>\<^verbatim>\<open>obj[k]\<close>, \<^verbatim>\<open>obj[k] = v\<close>, \<^verbatim>\<open>delete obj[k]\<close> and \<^verbatim>\<open>Object.keys(obj)\<close>
  on an object. A property that is not there reads as \<^verbatim>\<open>undefined\<close>; a new property
  goes to the end, an existing one keeps its place.\<close>

definition js_get :: "jsobj \<Rightarrow> string \<Rightarrow> jsval" where
  "js_get obj k = (case map_of obj k of None \<Rightarrow> Undefined | Some v \<Rightarrow> v)"

definition js_set :: "jsobj \<Rightarrow> string \<Rightarrow> jsval \<Rightarrow> jsobj" where
  "js_set obj k v = AList.update k v obj"

definition js_delete :: "jsobj \<Rightarrow> string \<Rightarrow> jsobj" where
  "js_delete obj k = AList.delete k obj"

definition keys :: "jsobj \<Rightarrow> string list" where
  "keys obj = map fst obj"

text \<open>Truthiness (\<^verbatim>\<open>!v\<close>, \<^verbatim>\<open>v && ...\<close>, \<^verbatim>\<open>v || ...\<close>), \<^verbatim>\<open>v == null\<close> and
  \<^verbatim>\<open>typeof v\<close>.\<close>

fun truthy :: "jsval \<Rightarrow> bool" where
  "truthy Undefined = False"
| "truthy Null = False"
| "truthy (Bool b) = b"
| "truthy (Num NaN) = False"
| "truthy (Num (Fin n)) = (n \<noteq> 0)"
| "truthy (Str s) = (s \<noteq> [])"
| "truthy (Arr xs) = True"
| "truthy (Obj kvs) = True"

definition js_or :: "jsval \<Rightarrow> jsval \<Rightarrow> jsval" where
  "js_or a b = (if truthy a then a else b)"

definition is_nullish :: "jsval \<Rightarrow> bool" where
  "is_nullish v = (v = Undefined \<or> v = Null)"

fun typeof :: "jsval \<Rightarrow> string" where
  "typeof Undefined = ''undefined''"
| "typeof Null = ''object''"
| "typeof (Bool b) = ''boolean''"
| "typeof (Num n) = ''number''"
| "typeof (Str s) = ''string''"
| "typeof (Arr xs) = ''object''"
| "typeof (Obj kvs) = ''object''"

subsection \<open>Decimal numerals\<close>

definition is_digit :: "char \<Rightarrow> bool" where
  "is_digit c = (48 \<le> (of_char c :: nat) \<and> (of_char c :: nat) \<le> 57)"

definition digit_val :: "char \<Rightarrow> nat" where
  "digit_val c = of_char c - 48"

definition digit_char :: "nat \<Rightarrow> char" where
  "digit_char d = char_of (48 + d)"

definition digits_val :: "string \<Rightarrow> nat" where
  "digits_val ds = foldl (\<lambda>acc c. 10 * acc + digit_val c) 0 ds"

text \<open>White space that \<^verbatim>\<open>parseInt\<close> and the conversion of a string to a number
  skip: tab, line feed, vertical tab, form feed, carriage return, space and the
  no-break space U+00A0. These are all the white space and line terminators of
  JavaScript among the code units below 256.\<close>

definition is_whitespace :: "char \<Rightarrow> bool" where
  "is_whitespace c = ((of_char c :: nat) \<in> {9, 10, 11, 12, 13, 32, 160})"

text \<open>The sign that may start a numeral: the sign and the rest of the string.\<close>

fun split_sign :: "string \<Rightarrow> int \<times> string" where
  "split_sign [] = (1, [])"
| "split_sign (c # cs) =
     (if c = CHR ''-'' then (-1, cs) else if c = CHR ''+'' then (1, cs) else (1, c # cs))"

text \<open>\<^verbatim>\<open>parseInt(s, 10)\<close>, the only radix the module uses: skip leading white
  space, read an optional sign, then the longest run of decimal digits; no digit gives
  \<^verbatim>\<open>NaN\<close>, and whatever follows the digits is ignored. The model reads the digits
  exactly; JavaScript returns the double nearest to their value, which is their value up
  to \<open>2^53\<close>.\<close>

definition parseInt :: "string \<Rightarrow> jsnum" where
  "parseInt s =
     (let (sign, rest) = split_sign (dropWhile is_whitespace s);
          ds = takeWhile is_digit rest
      in if ds = [] then NaN else Fin (sign * int (digits_val ds)))"

text \<open>Decimal numerals, and \<^verbatim>\<open>String(n)\<close> for a number: the decimal numeral below
  \<open>10^21\<close> in magnitude, and from there on the exponent form \<^verbatim>\<open>d.ddde+n\<close> of the
  digits without their trailing zeros (\<^verbatim>\<open>String(1e21)\<close> is \<^verbatim>\<open>"1e+21"\<close>).
  JavaScript writes the shortest digits that read back as the same double; these are the
  digits of the number when it has at most 15 of them, trailing zeros apart.\<close>

fun show_nat :: "nat \<Rightarrow> string" where
  "show_nat n = (if n < 10 then [digit_char n] else show_nat (n div 10) @ [digit_char (n mod 10)])"

declare show_nat.simps [simp del]

definition show_int :: "int \<Rightarrow> string" where
  "show_int i = (if i < 0 then CHR ''-'' # show_nat (nat (- i)) else show_nat (nat i))"

definition exponent_form :: "nat \<Rightarrow> string" where
  "exponent_form n =
     (let ds = show_nat n;
          significant = rev (dropWhile (\<lambda>c. c = CHR ''0'') (rev ds))
      in (case significant of
            [] \<Rightarrow> []
          | d # more \<Rightarrow>
              (d # (if more = [] then [] else CHR ''.'' # more)) @ ''e+'' @ show_nat (length ds - 1)))"

fun Number_toString :: "jsnum \<Rightarrow> string" where
  "Number_toString NaN = ''NaN''"
| "Number_toString (Fin i) =
     (if \<bar>i\<bar> < 10 ^ 21 then show_int i
      else (if i < 0 then ''-'' else []) @ exponent_form (nat \<bar>i\<bar>))"

subsection \<open>Conversions\<close>

fun join :: "string \<Rightarrow> string list \<Rightarrow> string" where
  "join sep [] = []"
| "join sep [x] = x"
| "join sep (x # y # ys) = x @ sep @ join sep (y # ys)"

text \<open>\<^verbatim>\<open>String(v)\<close>. An array joins its elements with commas, \<^verbatim>\<open>null\<close> and
  \<^verbatim>\<open>undefined\<close> elements being empty. Objects that shadow \<^verbatim>\<open>toString\<close> or
  \<^verbatim>\<open>valueOf\<close> are outside the model.\<close>

fun ToString :: "jsval \<Rightarrow> string" where
  "ToString Undefined = ''undefined''"
| "ToString Null = ''null''"
| "ToString (Bool b) = (if b then ''true'' else ''false'')"
| "ToString (Num n) = Number_toString n"
| "ToString (Str s) = s"
| "ToString (Arr xs) = join '','' (map (\<lambda>x. if is_nullish x then [] else ToString x) xs)"
| "ToString (Obj kvs) = ''[object Object]''"

definition trim :: "string \<Rightarrow> string" where
  "trim s = rev (dropWhile is_whitespace (rev (dropWhile is_whitespace s)))"

text \<open>The number a string denotes, within the integers of the model: the empty
  string (after trimming) is 0, an optionally signed run of digits is its value.
  Numerals with a fraction, an exponent or a radix prefix, and \<^verbatim>\<open>Infinity\<close>, denote
  numbers the model does not have; they read as \<^verbatim>\<open>NaN\<close> here. The module converts a
  string to a number this way only for the \<^verbatim>\<open>length\<close> of a stored \<^verbatim>\<open>filters\<close>
  value that is neither an array nor a string, and for an array in place of a page.\<close>

definition StringToNumber :: "string \<Rightarrow> jsnum" where
  "StringToNumber s =
     (let t = trim s in
      if t = [] then Fin 0
      else (let (sign, ds) = split_sign t
            in if ds \<noteq> [] \<and> list_all is_digit ds then Fin (sign * int (digits_val ds)) else NaN))"

fun ToNumber :: "jsval \<Rightarrow> jsnum" where
  "ToNumber Undefined = NaN"
| "ToNumber Null = Fin 0"
| "ToNumber (Bool b) = Fin (if b then 1 else 0)"
| "ToNumber (Num n) = n"
| "ToNumber (Str s) = StringToNumber s"
| "ToNumber (Arr xs) = StringToNumber (ToString (Arr xs))"
| "ToNumber (Obj kvs) = NaN"

definition isNaN :: "jsval \<Rightarrow> bool" where
  "isNaN v = (ToNumber v = NaN)"

text \<open>\<^verbatim>\<open>v.length\<close> of a truthy value, and \<^verbatim>\<open>v > n\<close> for a number \<open>n\<close>.\<close>

fun js_length :: "jsval \<Rightarrow> jsval" where
  "js_length (Arr xs) = Num (Fin (int (length xs)))"
| "js_length (Str s) = Num (Fin (int (length s)))"
| "js_length (Obj kvs) = js_get kvs ''length''"
| "js_length v = Undefined"

definition js_gt :: "jsval \<Rightarrow> int \<Rightarrow> bool" where
  "js_gt v n = (case ToNumber v of NaN \<Rightarrow> False | Fin m \<Rightarrow> m > n)"

section \<open>The query resolver\<close>

text \<open>\<^verbatim>\<open>getNumberOrDefault\<close> (lines 366-376).\<close>

definition getNumberOrDefault :: "jsval \<Rightarrow> jsnum \<Rightarrow> jsval" where
  "getNumberOrDefault possibleNumber defaultValue =
     (let parsedNumber =
            (case possibleNumber of
               Str s \<Rightarrow> Num (parseInt s)
             | _ \<Rightarrow> possibleNumber)
      in if isNaN parsedNumber then Num defaultValue else parsedNumber)"

text \<open>\<^verbatim>\<open>hasCustomParams\<close> (lines 311-320). The stored params are an object or
  \<^verbatim>\<open>undefined\<close> (\<open>None\<close>); the result is the truthiness of what the JavaScript
  expression returns, which is all that \<^verbatim>\<open>getQuery\<close> uses.\<close>

definition hasCustomParams :: "jsobj option \<Rightarrow> bool" where
  "hasCustomParams params =
     (case params of
        None \<Rightarrow> False
      | Some p \<Rightarrow>
          (truthy (js_get p ''filters'') \<and> js_gt (js_length (js_get p ''filters'')) 0)
          \<or> \<not> is_nullish (js_get p ''order'')
          \<or> js_get p ''page'' \<noteq> Num (Fin 1)
          \<or> \<not> is_nullish (js_get p ''perPage'')
          \<or> \<not> is_nullish (js_get p ''sort''))"

text \<open>The \<^verbatim>\<open>SortPayload\<close> of the caller: the default sort field and order.\<close>

record SortPayload =
  field :: string
  order :: string

text \<open>\<^verbatim>\<open>getQuery\<close> (lines 328-364), in the three steps of its body: the choice of
  the base (lines 341-346), the defaults put into it (lines 348-357), and the object
  returned (lines 359-363). The source writes the defaults into the base object itself,
  which is the caller's URL query when that is the base; the model returns the updated
  object, and no function of the module reads the URL query of a render after
  \<^verbatim>\<open>getQuery\<close> but for the number of its keys, which the defaults leave positive
  when it was.\<close>

definition query_base :: "jsobj \<Rightarrow> jsobj option \<Rightarrow> jsval \<Rightarrow> jsobj" where
  "query_base queryFromLocation params filterDefaultValues =
     (if length (keys queryFromLocation) > 0 then queryFromLocation
      else if hasCustomParams params then (case params of Some p \<Rightarrow> p | None \<Rightarrow> [])
      else [(''filters'', js_or filterDefaultValues (Arr []))])"

definition inject_defaults :: "jsobj \<Rightarrow> SortPayload \<Rightarrow> jsnum \<Rightarrow> jsobj" where
  "inject_defaults query0 sortPayload perPage =
     (let query1 = (if \<not> truthy (js_get query0 ''sort'')
                    then js_set (js_set query0 ''sort'' (Str (field sortPayload)))
                           ''order'' (Str (order sortPayload))
                    else query0);
          query2 = (if is_nullish (js_get query1 ''perPage'')
                    then js_set query1 ''perPage'' (Num perPage) else query1);
          query3 = (if is_nullish (js_get query2 ''page'')
                    then js_set query2 ''page'' (Num (Fin 1)) else query2)
      in query3)"

definition getQuery ::
  "jsobj \<Rightarrow> jsobj option \<Rightarrow> jsval \<Rightarrow> SortPayload \<Rightarrow> jsnum \<Rightarrow> jsobj" where
  "getQuery queryFromLocation params filterDefaultValues sortPayload perPage =
     (let query = inject_defaults (query_base queryFromLocation params filterDefaultValues)
                    sortPayload perPage
      in js_set (js_set query ''page'' (getNumberOrDefault (js_get query ''page'') (Fin 1)))
           ''perPage'' (getNumberOrDefault (js_get query ''perPage'') (Fin 10)))"

section \<open>Reading the query from the location\<close>

text \<open>
  \<^verbatim>\<open>parse\<close> (query-string) and \<^verbatim>\<open>JSON.parse\<close> are not code of this module.
  The location's search string is represented by the object \<^verbatim>\<open>parse(search)\<close>
  returns for it: one entry per key of the query string, whose value is a string,
  \<^verbatim>\<open>null\<close> (a key without \<^verbatim>\<open>=\<close>) or an array of those (a repeated key).
  \<^verbatim>\<open>JSON.parse\<close> is a parameter of the functions that call it: a function from the
  text to the value parsed, \<open>None\<close> when it throws a \<^verbatim>\<open>SyntaxError\<close>.
\<close>

type_synonym json_parser = "string \<Rightarrow> jsval option"

definition validQueryParams :: "string list" where
  "validQueryParams =
     [''page'', ''perPage'', ''sort'', ''order'', ''filters'', ''displayedFilters'', ''filter'']"

text \<open>\<^verbatim>\<open>pickBy(obj, (v, k) => ...)\<close> (lodash) keeps the entries the predicate holds of.\<close>

definition pickBy :: "jsobj \<Rightarrow> (jsval \<Rightarrow> string \<Rightarrow> bool) \<Rightarrow> jsobj" where
  "pickBy obj pred = filter (\<lambda>(k, v). pred v k) obj"

text \<open>\<^verbatim>\<open>parseObject\<close> (lines 255-263); the source updates \<^verbatim>\<open>query\<close> in place, the
  model returns it.\<close>

definition parseObject :: "json_parser \<Rightarrow> jsobj \<Rightarrow> string \<Rightarrow> jsobj" where
  "parseObject JSON_parse query fld =
     (if truthy (js_get query fld) \<and> typeof (js_get query fld) = ''string''
      then (case js_get query fld of
              Str s \<Rightarrow> (case JSON_parse s of
                          Some v \<Rightarrow> js_set query fld v
                        | None \<Rightarrow> js_delete query fld)
            | _ \<Rightarrow> query)
      else query)"

text \<open>\<^verbatim>\<open>Object.keys(v)\<close> throws a \<^verbatim>\<open>TypeError\<close> on \<^verbatim>\<open>null\<close> and
  \<^verbatim>\<open>undefined\<close> (\<open>None\<close>); the keys of an array or a string are its indices.
  \<^verbatim>\<open>v[name]\<close> reads one of these keys.\<close>

fun Object_keys :: "jsval \<Rightarrow> string list option" where
  "Object_keys Undefined = None"
| "Object_keys Null = None"
| "Object_keys (Bool b) = Some []"
| "Object_keys (Num n) = Some []"
| "Object_keys (Str s) = Some (map show_nat [0..<length s])"
| "Object_keys (Arr xs) = Some (map show_nat [0..<length xs])"
| "Object_keys (Obj kvs) = Some (keys kvs)"

definition index_of_key :: "nat \<Rightarrow> string \<Rightarrow> nat option" where
  "index_of_key n name = find (\<lambda>i. show_nat i = name) [0..<n]"

fun js_prop :: "jsval \<Rightarrow> string \<Rightarrow> jsval" where
  "js_prop (Obj kvs) name = js_get kvs name"
| "js_prop (Arr xs) name =
     (case index_of_key (length xs) name of
        Some i \<Rightarrow> xs ! i
      | None \<Rightarrow> if name = ''length'' then js_length (Arr xs) else Undefined)"
| "js_prop (Str s) name =
     (case index_of_key (length s) name of
        Some i \<Rightarrow> Str [s ! i]
      | None \<Rightarrow> if name = ''length'' then js_length (Str s) else Undefined)"
| "js_prop v name = Undefined"

text \<open>A \<^verbatim>\<open>FilterItem\<close> \<^verbatim>\<open>{field, operator, value}\<close>.\<close>

definition FilterItem :: "string \<Rightarrow> string \<Rightarrow> jsval \<Rightarrow> jsval" where
  "FilterItem fld operator v = Obj [(''field'', Str fld), (''operator'', Str operator), (''value'', v)]"

text \<open>\<^verbatim>\<open>parseQueryFromLocation\<close> (lines 276-296). In the legacy branch the
  \<^verbatim>\<open>try\<close> block covers \<^verbatim>\<open>JSON.parse\<close> and \<^verbatim>\<open>Object.keys\<close>; when either throws,
  \<^verbatim>\<open>filters\<close> is not written, and \<^verbatim>\<open>filter\<close> is deleted in every case.\<close>

definition parseQueryFromLocation :: "json_parser \<Rightarrow> jsobj \<Rightarrow> jsobj" where
  "parseQueryFromLocation JSON_parse search =
     (let query0 = pickBy search (\<lambda>v k. k \<in> set validQueryParams);
          query1 = parseObject JSON_parse query0 ''filters'';
          query2 = parseObject JSON_parse query1 ''displayedFilters''
      in if \<not> truthy (js_get query2 ''filters'') \<and> truthy (js_get query2 ''filter'')
            \<and> typeof (js_get query2 ''filter'') = ''string''
         then (let query3 =
                     (case js_get query2 ''filter'' of
                        Str s \<Rightarrow>
                          (case JSON_parse s of
                             None \<Rightarrow> query2
                           | Some filterObject \<Rightarrow>
                               (case Object_keys filterObject of
                                  None \<Rightarrow> query2
                                | Some names \<Rightarrow>
                                    js_set query2 ''filters''
                                      (Arr (map (\<lambda>name. FilterItem name ''=''
                                                  (js_prop filterObject name)) names))))
                      | _ \<Rightarrow> query2)
               in js_delete query3 ''filter'')
         else query2)"

section \<open>The hook: resolved query and batched changes\<close>

text \<open>The default arguments of \<^verbatim>\<open>useListParams\<close> (lines 78-81 and 409-412;
  \<^verbatim>\<open>SORT_ASC\<close> is imported from the reducer's module, where it is \<^verbatim>\<open>'ASC'\<close>).\<close>

definition defaultSort :: SortPayload where
  "defaultSort = \<lparr>field = ''id'', order = ''ASC''\<rparr>"

record ListParamsOptions =
  filterDefaultValues :: jsval
  sort_opt :: "SortPayload option"
  perPage_opt :: "jsnum option"
  disableSyncWithLocation :: bool

text \<open>The filter defaults handed to \<^verbatim>\<open>getQuery\<close> (lines 112-120): an array is
  passed on, any other truthy value is spread into one equality filter per key.\<close>

definition filterDefaultValues_arg :: "jsval \<Rightarrow> jsval" where
  "filterDefaultValues_arg fdv =
     (if truthy fdv
      then (case fdv of
              Arr xs \<Rightarrow> Arr xs
            | _ \<Rightarrow> (case Object_keys fdv of
                      Some names \<Rightarrow>
                        Arr (map (\<lambda>name. FilterItem name ''='' (js_prop fdv name)) names)
                    | None \<Rightarrow> Undefined))
      else fdv)"

text \<open>The \<^verbatim>\<open>query\<close> of one render (lines 103-125): \<open>search\<close> is the location's
  query, \<open>params\<close> the params of the store and \<open>localParams\<close> the hook's own state.\<close>

definition useListParams_query ::
  "json_parser \<Rightarrow> ListParamsOptions \<Rightarrow> jsobj \<Rightarrow> jsobj option \<Rightarrow> jsobj option \<Rightarrow> jsobj" where
  "useListParams_query JSON_parse opts search params localParams =
     (let queryFromLocation =
            (if disableSyncWithLocation opts then []
             else parseQueryFromLocation JSON_parse search)
      in getQuery queryFromLocation
           (if disableSyncWithLocation opts then localParams else params)
           (filterDefaultValues_arg (filterDefaultValues opts))
           (case sort_opt opts of None \<Rightarrow> defaultSort | Some s \<Rightarrow> s)
           (case perPage_opt opts of None \<Rightarrow> Fin 10 | Some n \<Rightarrow> n))"

text \<open>
  The actions of the reducer. \<^verbatim>\<open>queryReducer\<close> is imported from a module that is
  not part of these sources, so it is a parameter of \<^verbatim>\<open>changeParams\<close>: any function
  from a parameter set and an action to a parameter set.
\<close>

datatype action_type = SET_SORT | SET_PAGE | SET_PER_PAGE | SET_FILTERS | HIDE_FILTER | SHOW_FILTER

record action =
  type :: action_type
  payload :: jsval

type_synonym reducer = "jsobj \<Rightarrow> action \<Rightarrow> jsobj"

text \<open>
  The state the batching works on: the ref \<^verbatim>\<open>tempParams\<close>, the callbacks handed
  to \<^verbatim>\<open>setTimeout(..., 0)\<close> that have not run yet (each one is the closure of line
  142, determined by the action of the call that created it), and the effects seen from
  outside, in order: a call of \<^verbatim>\<open>setLocalParams\<close>, a call of \<^verbatim>\<open>navigate\<close> with its
  search string and \<^verbatim>\<open>_scrollToTop\<close> flag, or an exception that left a callback.
\<close>

datatype error = TypeError

datatype effect =
    SetLocalParams "jsobj option"
  | Navigate string bool
  | Uncaught error

record hook_state =
  tempParams :: "jsobj option"
  timers :: "action list"
  effects :: "effect list"

definition idle :: hook_state where
  "idle = \<lparr>tempParams = None, timers = [], effects = []\<rparr>"

text \<open>\<^verbatim>\<open>changeParams\<close> (lines 137-170), the synchronous part: the first call of a
  tick reduces the render's \<^verbatim>\<open>query\<close> and schedules the callback, a later call
  reduces the pending params.\<close>

definition changeParams :: "reducer \<Rightarrow> jsobj \<Rightarrow> action \<Rightarrow> hook_state \<Rightarrow> hook_state" where
  "changeParams queryReducer query act st =
     (case tempParams st of
        None \<Rightarrow>
          st\<lparr>tempParams := Some (queryReducer query act), timers := timers st @ [act]\<rparr>
      | Some pending \<Rightarrow>
          st\<lparr>tempParams := Some (queryReducer pending act)\<rparr>)"

text \<open>The object handed to \<^verbatim>\<open>stringify\<close> (lines 149-157). \<^verbatim>\<open>JSON.stringify\<close> is
  a parameter: it returns a string, or \<^verbatim>\<open>undefined\<close> for \<^verbatim>\<open>undefined\<close>.\<close>

definition search_object :: "(jsval \<Rightarrow> jsval) \<Rightarrow> jsobj \<Rightarrow> jsobj" where
  "search_object JSON_stringify pending =
     js_set (js_set pending ''filters'' (JSON_stringify (js_get pending ''filters'')))
       ''displayedFilters'' (JSON_stringify (js_get pending ''displayedFilters''))"

text \<open>The scheduled callback (lines 142-165). \<^verbatim>\<open>stringify\<close> (query-string) is a
  parameter. With the URL in use, reading \<^verbatim>\<open>tempParams.current.filters\<close> throws when
  \<^verbatim>\<open>tempParams.current\<close> is \<^verbatim>\<open>undefined\<close>.\<close>

definition flush ::
  "(jsval \<Rightarrow> jsval) \<Rightarrow> (jsobj \<Rightarrow> string) \<Rightarrow> bool \<Rightarrow> action \<Rightarrow> hook_state \<Rightarrow> error + hook_state" where
  "flush JSON_stringify stringify disableSync act st =
     (if disableSync
      then Inr (st\<lparr>effects := effects st @ [SetLocalParams (tempParams st)], tempParams := None\<rparr>)
      else (case tempParams st of
              None \<Rightarrow> Inl TypeError
            | Some pending \<Rightarrow>
                Inr (st\<lparr>effects := effects st @
                            [Navigate (''?'' @ stringify (search_object JSON_stringify pending))
                               (type act = SET_PAGE)],
                        tempParams := None\<rparr>)))"

text \<open>The end of the tick: the pending callbacks run in the order in which they were
  scheduled; an exception ends the callback it leaves, not the others.\<close>

fun run_timers ::
  "(jsval \<Rightarrow> jsval) \<Rightarrow> (jsobj \<Rightarrow> string) \<Rightarrow> bool \<Rightarrow> hook_state \<Rightarrow> action list \<Rightarrow> hook_state" where
  "run_timers JSON_stringify stringify disableSync st [] = st"
| "run_timers JSON_stringify stringify disableSync st (act # acts) =
     (case flush JSON_stringify stringify disableSync act st of
        Inl e \<Rightarrow>
          run_timers JSON_stringify stringify disableSync
            (st\<lparr>effects := effects st @ [Uncaught e]\<rparr>) acts
      | Inr st' \<Rightarrow> run_timers JSON_stringify stringify disableSync st' acts)"

definition end_of_tick ::
  "(jsval \<Rightarrow> jsval) \<Rightarrow> (jsobj \<Rightarrow> string) \<Rightarrow> bool \<Rightarrow> hook_state \<Rightarrow> hook_state" where
  "end_of_tick JSON_stringify stringify disableSync st =
     run_timers JSON_stringify stringify disableSync (st\<lparr>timers := []\<rparr>) (timers st)"

text \<open>One tick: the actions submitted by the synchronous code, in call order, then
  the callbacks.\<close>

definition submit_all :: "reducer \<Rightarrow> jsobj \<Rightarrow> action list \<Rightarrow> hook_state \<Rightarrow> hook_state" where
  "submit_all queryReducer query acts st =
     foldl (\<lambda>s act. changeParams queryReducer query act s) st acts"

definition tick ::
  "reducer \<Rightarrow> (jsval \<Rightarrow> jsval) \<Rightarrow> (jsobj \<Rightarrow> string) \<Rightarrow> bool \<Rightarrow> jsobj \<Rightarrow> action list
     \<Rightarrow> hook_state \<Rightarrow> hook_state" where
  "tick queryReducer JSON_stringify stringify disableSync query acts st =
     end_of_tick JSON_stringify stringify disableSync (submit_all queryReducer query acts st)"

text \<open>The modifiers (lines 172-190 and 219-234) are the actions they submit.\<close>

definition setSort :: "jsval \<Rightarrow> jsval \<Rightarrow> action" where
  "setSort srt ord = \<lparr>type = SET_SORT, payload = Obj [(''sort'', srt), (''order'', ord)]\<rparr>"

definition setPage :: "jsval \<Rightarrow> action" where
  "setPage newPage = \<lparr>type = SET_PAGE, payload = newPage\<rparr>"

definition setPerPage :: "jsval \<Rightarrow> action" where
  "setPerPage newPerPage = \<lparr>type = SET_PER_PAGE, payload = newPerPage\<rparr>"

definition hideFilter :: "string \<Rightarrow> action" where
  "hideFilter filterName = \<lparr>type = HIDE_FILTER, payload = Str filterName\<rparr>"

definition showFilter :: "string \<Rightarrow> jsval \<Rightarrow> action" where
  "showFilter filterName defaultValue =
     \<lparr>type = SHOW_FILTER,
      payload = Obj [(''filterName'', Str filterName), (''defaultValue'', defaultValue)]\<rparr>"

section \<open>Notions of the specification\<close>

text \<open>The neutral shape of the stored params (the comment of lines 301-307), and
  what the specification calls a deviation from it: \<^verbatim>\<open>filters\<close> is non-empty, or
  \<^verbatim>\<open>order\<close> is set, or \<^verbatim>\<open>page\<close> is not 1, or \<^verbatim>\<open>perPage\<close> is set, or
  \<^verbatim>\<open>sort\<close> is set. A field is set when it is neither \<^verbatim>\<open>null\<close> nor
  \<^verbatim>\<open>undefined\<close>.\<close>

definition neutral_params :: jsobj where
  "neutral_params =
     [(''filters'', Arr []), (''order'', Null), (''page'', Num (Fin 1)),
      (''perPage'', Null), (''sort'', Null)]"

definition filters_nonempty :: "jsval \<Rightarrow> bool" where
  "filters_nonempty v = (case v of Arr xs \<Rightarrow> xs \<noteq> [] | Str s \<Rightarrow> s \<noteq> [] | _ \<Rightarrow> False)"

definition is_set :: "jsval \<Rightarrow> bool" where
  "is_set v = (v \<noteq> Null \<and> v \<noteq> Undefined)"

definition deviates :: "jsobj \<Rightarrow> bool" where
  "deviates p =
     (filters_nonempty (js_get p ''filters'')
      \<or> is_set (js_get p ''order'')
      \<or> js_get p ''page'' \<noteq> Num (Fin 1)
      \<or> is_set (js_get p ''perPage'')
      \<or> is_set (js_get p ''sort''))"

definition is_plain_object :: "jsval \<Rightarrow> bool" where
  "is_plain_object v = (case v of Obj kvs \<Rightarrow> True | _ \<Rightarrow> False)"

text \<open>A query contains a recognized parameter when one of its keys is among
  \<^verbatim>\<open>validQueryParams\<close>.\<close>

definition has_recognized_param :: "jsobj \<Rightarrow> bool" where
  "has_recognized_param q = list_ex (\<lambda>k. k \<in> set validQueryParams) (keys q)"

text \<open>A numeric string, for \<^verbatim>\<open>parseInt\<close>: after leading white space and an
  optional sign, it starts with a decimal digit.\<close>

definition has_integer_prefix :: "string \<Rightarrow> bool" where
  "has_integer_prefix s =
     (case snd (split_sign (dropWhile is_whitespace s)) of [] \<Rightarrow> False | c # cs \<Rightarrow> is_digit c)"

text \<open>The invariant of the data model: \<^verbatim>\<open>page\<close> and \<^verbatim>\<open>perPage\<close> are numbers,
  and at least 1.\<close>

definition positive :: "jsval \<Rightarrow> bool" where
  "positive v = (case v of Num (Fin n) \<Rightarrow> 1 \<le> n | _ \<Rightarrow> False)"

definition ParameterSet_invariant :: "jsobj \<Rightarrow> bool" where
  "ParameterSet_invariant q = (positive (js_get q ''page'') \<and> positive (js_get q ''perPage''))"

text \<open>The number a base supplies for \<^verbatim>\<open>page\<close> or \<^verbatim>\<open>perPage\<close>: what
  \<^verbatim>\<open>parseInt\<close> reads from a string, a number itself, and no number otherwise. The
  values these two fields have in a base: a string, \<^verbatim>\<open>null\<close> or an array of two
  or more values (from the URL, the array for a repeated key), a number or
  \<^verbatim>\<open>null\<close> (from the store), or nothing.\<close>

definition supplied_number :: "jsval \<Rightarrow> jsnum" where
  "supplied_number v = (case v of Str s \<Rightarrow> parseInt s | Num n \<Rightarrow> n | _ \<Rightarrow> NaN)"

definition below_one :: "jsnum \<Rightarrow> bool" where
  "below_one n = (case n of Fin i \<Rightarrow> i < 1 | NaN \<Rightarrow> False)"

definition url_or_store_value :: "jsval \<Rightarrow> bool" where
  "url_or_store_value v =
     (case v of Str s \<Rightarrow> True | Num n \<Rightarrow> True | Undefined \<Rightarrow> True | Null \<Rightarrow> True
      | Arr xs \<Rightarrow> 2 \<le> length xs | _ \<Rightarrow> False)"

text \<open>The two halves of \<^verbatim>\<open>parseQueryFromLocation\<close>, named for the proofs: the query
  after the two calls of \<^verbatim>\<open>parseObject\<close> (lines 277-282), and the legacy branch
  (lines 283-295) as a function of that query.\<close>

definition parsed_objects :: "json_parser \<Rightarrow> jsobj \<Rightarrow> jsobj" where
  "parsed_objects JSON_parse search =
     parseObject JSON_parse
       (parseObject JSON_parse (pickBy search (\<lambda>v k. k \<in> set validQueryParams)) ''filters'')
       ''displayedFilters''"

definition legacy_filter :: "json_parser \<Rightarrow> jsobj \<Rightarrow> jsobj" where
  "legacy_filter JSON_parse query2 =
     (if \<not> truthy (js_get query2 ''filters'') \<and> truthy (js_get query2 ''filter'')
         \<and> typeof (js_get query2 ''filter'') = ''string''
      then js_delete
             (case js_get query2 ''filter'' of
                Str s \<Rightarrow>
                  (case JSON_parse s of
                     None \<Rightarrow> query2
                   | Some filterObject \<Rightarrow>
                       (case Object_keys filterObject of
                          None \<Rightarrow> query2
                        | Some names \<Rightarrow>
                            js_set query2 ''filters''
                              (Arr (map (\<lambda>name. FilterItem name ''=''
                                          (js_prop filterObject name)) names))))
              | _ \<Rightarrow> query2) ''filter''
      else query2)"

text \<open>What \<^verbatim>\<open>JSON.parse\<close> returns on the texts of the examples below, for the
  examples to be evaluated; every other text an example uses is not JSON
  (\<^verbatim>\<open>JSON.parse\<close> throws on the empty string and on \<^verbatim>\<open>{bad\<close>).\<close>

definition JSON_parse_sample :: json_parser where
  \<open>JSON_parse_sample s =
     (if s = ''[]'' then Some (Arr [])
      else if s = ''{}'' then Some (Obj [])
      else if s = ''null'' then Some Null
      else if s = ''{"published":true}'' then Some (Obj [(''published'', Bool True)])
      else if s = ''[{"field":"published","operator":"=","value":true}]''
        then Some (Arr [FilterItem ''published'' ''='' (Bool True)])
      else if s = ''[{"field":"score","operator":"=","value":null}]''
        then Some (Arr [FilterItem ''score'' ''='' Null])
      else None)\<close>

text \<open>The batching is idle when nothing is pending and no callback is scheduled.\<close>

definition is_idle :: "hook_state \<Rightarrow> bool" where
  "is_idle st = (tempParams st = None \<and> timers st = [])"

text \<open>
  The search string written by \<^verbatim>\<open>stringify\<close>, as \<^verbatim>\<open>parse\<close> reads it back (both of
  query-string, with their default options): a key whose value is \<^verbatim>\<open>undefined\<close> is not
  written, \<^verbatim>\<open>null\<close> is written as the key alone and comes back as \<^verbatim>\<open>null\<close>, an
  array is written as one entry per element and comes back as nothing, one value or an
  array, and every other value comes back as the string \<^verbatim>\<open>String(v)\<close>. The keys come
  back sorted; no function of the module depends on their order, and the model leaves them
  in place.
\<close>

fun url_element :: "jsval \<Rightarrow> jsval option" where
  "url_element Undefined = None"
| "url_element Null = Some Null"
| "url_element v = Some (Str (ToString v))"

fun url_value :: "jsval \<Rightarrow> jsval option" where
  "url_value (Arr xs) =
     (case List.map_filter url_element xs of
        [] \<Rightarrow> None
      | [y] \<Rightarrow> Some y
      | ys \<Rightarrow> Some (Arr ys))"
| "url_value v = url_element v"

definition url_of :: "jsobj \<Rightarrow> jsobj" where
  "url_of obj = List.map_filter (\<lambda>(k, v). map_option (Pair k) (url_value v)) obj"

text \<open>A parameter set with its six fields: page, perPage, sort, order, filters and
  displayedFilters.\<close>

definition ParameterSet :: "int \<Rightarrow> int \<Rightarrow> string \<Rightarrow> string \<Rightarrow> jsval list \<Rightarrow> jsval \<Rightarrow> jsobj" where
  "ParameterSet pg pp srt ord fs df =
     [(''page'', Num (Fin pg)), (''perPage'', Num (Fin pp)), (''sort'', Str srt),
      (''order'', Str ord), (''filters'', Arr fs), (''displayedFilters'', df)]"

text \<open>
  Modelled from the spec: \<^verbatim>\<open>queryReducer.ts\<close> is not among the sources. Section 4.2
  of the specification has set-page set the page, set-per-page set \<^verbatim>\<open>perPage\<close> and
  reset the page to 1, and set-filters replace \<^verbatim>\<open>filters\<close> and
  \<^verbatim>\<open>displayedFilters\<close> and reset the page to 1. This instance has these three
  transitions and leaves the parameters unchanged otherwise; it is used for examples
  only, the theorems are about every reducer.
\<close>

definition queryReducer_sample :: reducer where
  "queryReducer_sample previousState act =
     (case type act of
        SET_PAGE \<Rightarrow> js_set previousState ''page'' (payload act)
      | SET_PER_PAGE \<Rightarrow>
          js_set (js_set previousState ''page'' (Num (Fin 1))) ''perPage'' (payload act)
      | SET_FILTERS \<Rightarrow>
          js_set
            (js_set (js_set previousState ''page'' (Num (Fin 1)))
               ''filters'' (js_prop (payload act) ''filters''))
            ''displayedFilters'' (js_prop (payload act) ''displayedFilters'')
      | _ \<Rightarrow> previousState)"

text \<open>What \<^verbatim>\<open>JSON.stringify\<close> and \<^verbatim>\<open>stringify\<close> return on the values of the
  examples (\<^verbatim>\<open>JSON.stringify(undefined)\<close> is \<^verbatim>\<open>undefined\<close>, and
  \<^verbatim>\<open>JSON.stringify\<close> writes \<^verbatim>\<open>NaN\<close> as \<^verbatim>\<open>null\<close>).\<close>

definition JSON_stringify_sample :: "jsval \<Rightarrow> jsval" where
  \<open>JSON_stringify_sample v =
     (if v = Arr [] then Str ''[]''
      else if v = Obj [] then Str ''{}''
      else if v = Arr [FilterItem ''published'' ''='' (Bool True)]
        then Str ''[{"field":"published","operator":"=","value":true}]''
      else if v = Arr [FilterItem ''score'' ''='' (Num NaN)]
        then Str ''[{"field":"score","operator":"=","value":null}]''
      else Undefined)\<close>

definition stringify_sample :: "jsobj \<Rightarrow> string" where
  "stringify_sample obj =
     (if obj = [(''page'', Num (Fin 1)), (''perPage'', Num (Fin 25)), (''sort'', Str ''id''),
                (''order'', Str ''ASC''), (''filters'', Str ''[]''), (''displayedFilters'', Undefined)]
      then ''filters=%5B%5D&order=ASC&page=1&perPage=25&sort=id''
      else if obj = [(''page'', Num (Fin 2)), (''perPage'', Num (Fin 25)), (''sort'', Str ''id''),
                (''order'', Str ''ASC''), (''filters'', Str ''[]''), (''displayedFilters'', Undefined)]
      then ''filters=%5B%5D&order=ASC&page=2&perPage=25&sort=id''
      else [])"

section \<open>Properties of objects\<close>

lemma js_get_js_set: "js_get (js_set obj k v) k' = (if k' = k then v else js_get obj k')"
  by (simp add: js_get_def js_set_def update_conv')

lemma js_get_Nil [simp]: "js_get [] k = Undefined"
  by (simp add: js_get_def)

lemma js_get_Cons [simp]: "js_get ((k, v) # obj) k' = (if k' = k then v else js_get obj k')"
  by (simp add: js_get_def)

section \<open>The deviation check\<close>

lemma length_gt0:
  "\<not> is_plain_object v \<Longrightarrow> (truthy v \<and> js_gt (js_length v) 0) = filters_nonempty v"
  by (cases v) (auto simp: is_plain_object_def filters_nonempty_def js_gt_def)

lemma hasCustomParams_Some:
  "hasCustomParams (Some p) =
     ((truthy (js_get p ''filters'') \<and> js_gt (js_length (js_get p ''filters'')) 0)
      \<or> is_set (js_get p ''order'') \<or> js_get p ''page'' \<noteq> Num (Fin 1)
      \<or> is_set (js_get p ''perPage'') \<or> is_set (js_get p ''sort''))"
  by (auto simp: hasCustomParams_def is_set_def is_nullish_def)

text \<open>
  Claim C6. \<^verbatim>\<open>hasCustomParams\<close> is true exactly when the stored params deviate from
  the neutral shape: for every params object it holds iff \<^verbatim>\<open>filters\<close> is non-empty,
  or \<^verbatim>\<open>order\<close> is set, or \<^verbatim>\<open>page\<close> is not 1, or \<^verbatim>\<open>perPage\<close> is set, or
  \<^verbatim>\<open>sort\<close> is set; it is false on the neutral shape (and on \<^verbatim>\<open>undefined\<close>), and
  changing any one field of the neutral shape to a non-neutral value makes it true.
  The stored \<^verbatim>\<open>filters\<close> is an array, a primitive value or absent, as its type
  \<^verbatim>\<open>FilterItem[]\<close> has it; for an object that is no array the source compares
  whatever its \<^verbatim>\<open>length\<close> property holds.
\<close>

theorem hasCustomParams_deviation:
  assumes "\<not> is_plain_object (js_get p ''filters'')"
  shows "hasCustomParams (Some p) = deviates p
    \<and> \<not> hasCustomParams None
    \<and> \<not> hasCustomParams (Some neutral_params)
    \<and> (fs \<noteq> [] \<longrightarrow> hasCustomParams (Some (js_set neutral_params ''filters'' (Arr fs))))
    \<and> (is_set v1 \<longrightarrow> hasCustomParams (Some (js_set neutral_params ''order'' v1)))
    \<and> (v2 \<noteq> Num (Fin 1) \<longrightarrow> hasCustomParams (Some (js_set neutral_params ''page'' v2)))
    \<and> (is_set v3 \<longrightarrow> hasCustomParams (Some (js_set neutral_params ''perPage'' v3)))
    \<and> (is_set v4 \<longrightarrow> hasCustomParams (Some (js_set neutral_params ''sort'' v4)))"
proof -
  have main: "hasCustomParams (Some p) = deviates p"
    using length_gt0[OF assms] by (simp add: hasCustomParams_Some deviates_def)
  have none: "\<not> hasCustomParams None"
    by (simp add: hasCustomParams_def)
  have neutral: "\<not> hasCustomParams (Some neutral_params)"
    by (simp add: hasCustomParams_Some neutral_params_def is_set_def js_gt_def)
  have single:
    "fs \<noteq> [] \<longrightarrow> hasCustomParams (Some (js_set neutral_params ''filters'' (Arr fs)))"
    "is_set v1 \<longrightarrow> hasCustomParams (Some (js_set neutral_params ''order'' v1))"
    "v2 \<noteq> Num (Fin 1) \<longrightarrow> hasCustomParams (Some (js_set neutral_params ''page'' v2))"
    "is_set v3 \<longrightarrow> hasCustomParams (Some (js_set neutral_params ''perPage'' v3))"
    "is_set v4 \<longrightarrow> hasCustomParams (Some (js_set neutral_params ''sort'' v4))"
    by (simp_all add: hasCustomParams_Some js_get_js_set js_gt_def)
  from main none neutral single show ?thesis by blast
qed

theorem hasCustomParams_deviation_witness:
  "\<not> is_plain_object (js_get [(''filters'', Arr []), (''page'', Num (Fin 3))] ''filters'')
   \<and> hasCustomParams (Some [(''filters'', Arr []), (''page'', Num (Fin 3))])
   \<and> deviates [(''filters'', Arr []), (''page'', Num (Fin 3))]
   \<and> \<not> hasCustomParams (Some neutral_params)
   \<and> hasCustomParams
        (Some (js_set neutral_params ''filters'' (Arr [FilterItem ''title'' ''='' (Str ''x'')])))
   \<and> hasCustomParams (Some (js_set neutral_params ''order'' (Str ''DESC'')))
   \<and> hasCustomParams (Some (js_set neutral_params ''page'' (Num (Fin 2))))
   \<and> hasCustomParams (Some (js_set neutral_params ''perPage'' (Num (Fin 25))))
   \<and> hasCustomParams (Some (js_set neutral_params ''sort'' (Str ''title'')))"
  using hasCustomParams_deviation[of "[(''filters'', Arr []), (''page'', Num (Fin 3))]"
      "[FilterItem ''title'' ''='' (Str ''x'')]" "Str ''DESC''" "Num (Fin 2)" "Num (Fin 25)"
      "Str ''title''"]
  by (simp add: is_plain_object_def is_set_def deviates_def filters_nonempty_def)

lemma set_keys_js_set: "set (keys (js_set obj k v)) = insert k (set (keys obj))"
  using dom_update[of k v obj] by (simp add: keys_def js_set_def)

lemma js_get_Undefined: "k \<notin> set (keys obj) \<Longrightarrow> js_get obj k = Undefined"
  by (simp add: js_get_def keys_def map_of_eq_None_iff[THEN iffD2])

lemma parseInt_NaN_iff: "parseInt s = NaN \<longleftrightarrow> \<not> has_integer_prefix s"
  by (auto simp: parseInt_def has_integer_prefix_def Let_def takeWhile_eq_Nil_iff
      split: prod.splits list.splits)

lemma getNumberOrDefault_Str:
  "getNumberOrDefault (Str s) d = (case parseInt s of NaN \<Rightarrow> Num d | Fin n \<Rightarrow> Num (Fin n))"
  by (simp add: getNumberOrDefault_def isNaN_def split: jsnum.splits)

lemma getNumberOrDefault_Num:
  "getNumberOrDefault (Num n) d = (case n of NaN \<Rightarrow> Num d | Fin i \<Rightarrow> Num (Fin i))"
  by (simp add: getNumberOrDefault_def isNaN_def split: jsnum.splits)

lemma getNumberOrDefault_Undefined: "getNumberOrDefault Undefined d = Num d"
  by (simp add: getNumberOrDefault_def isNaN_def)

text \<open>The fields of the resolved query, in terms of the base.\<close>

lemma getQuery_page:
  "js_get (getQuery qfl params fdv sp pp) ''page'' =
     getNumberOrDefault
       (if is_nullish (js_get (query_base qfl params fdv) ''page'') then Num (Fin 1)
        else js_get (query_base qfl params fdv) ''page'') (Fin 1)"
  by (simp add: getQuery_def inject_defaults_def Let_def js_get_js_set)

lemma getQuery_perPage:
  "js_get (getQuery qfl params fdv sp pp) ''perPage'' =
     getNumberOrDefault
       (if is_nullish (js_get (query_base qfl params fdv) ''perPage'') then Num pp
        else js_get (query_base qfl params fdv) ''perPage'') (Fin 10)"
  by (simp add: getQuery_def inject_defaults_def Let_def js_get_js_set)

lemma getQuery_sort:
  "js_get (getQuery qfl params fdv sp pp) ''sort'' =
     (if truthy (js_get (query_base qfl params fdv) ''sort'')
      then js_get (query_base qfl params fdv) ''sort'' else Str (field sp))"
  by (simp add: getQuery_def inject_defaults_def Let_def js_get_js_set)

lemma getQuery_order:
  "js_get (getQuery qfl params fdv sp pp) ''order'' =
     (if truthy (js_get (query_base qfl params fdv) ''sort'')
      then js_get (query_base qfl params fdv) ''order'' else Str (order sp))"
  by (simp add: getQuery_def inject_defaults_def Let_def js_get_js_set)

lemma getQuery_other:
  "k \<notin> {''page'', ''perPage'', ''sort'', ''order''} \<Longrightarrow>
   js_get (getQuery qfl params fdv sp pp) k = js_get (query_base qfl params fdv) k"
  by (simp add: getQuery_def inject_defaults_def Let_def js_get_js_set)

lemma in_keys_js_set: "k' \<in> set (keys (js_set obj k v)) \<longleftrightarrow> k' = k \<or> k' \<in> set (keys obj)"
  by (simp add: set_keys_js_set)

lemma order_in_keys_getQuery:
  "''order'' \<in> set (keys (getQuery qfl params fdv sp pp)) \<longleftrightarrow>
     ''order'' \<in> set (keys (query_base qfl params fdv))
     \<or> \<not> truthy (js_get (query_base qfl params fdv) ''sort'')"
  by (simp add: getQuery_def inject_defaults_def Let_def in_keys_js_set)

section \<open>The base of the resolved query\<close>

lemma has_recognized_param_iff:
  "set (keys q) \<subseteq> set validQueryParams \<Longrightarrow> has_recognized_param q \<longleftrightarrow> keys q \<noteq> []"
  by (cases "keys q") (auto simp: has_recognized_param_def)

text \<open>
  Claim C1. \<^verbatim>\<open>getQuery\<close> chooses its base by strict priority: a URL query with at
  least one recognized parameter is the base as it is; otherwise the stored params, when
  \<^verbatim>\<open>hasCustomParams\<close> holds of them; otherwise the object whose only entry is
  \<^verbatim>\<open>filters\<close>, holding the default filters, or the empty list when there are none.
  The URL query of \<^verbatim>\<open>getQuery\<close> has recognized keys only: its type is
  \<^verbatim>\<open>Partial<ListParams>\<close>, and \<^verbatim>\<open>parseQueryFromLocation\<close> drops every other key.
\<close>

theorem query_base_priority:
  assumes "set (keys qfl) \<subseteq> set validQueryParams"
  shows "(has_recognized_param qfl \<longrightarrow> query_base qfl params fdv = qfl)
    \<and> (\<not> has_recognized_param qfl \<and> hasCustomParams params \<longrightarrow>
          params = Some (query_base qfl params fdv))
    \<and> (\<not> has_recognized_param qfl \<and> \<not> hasCustomParams params \<longrightarrow>
          query_base qfl params fdv = [(''filters'', if truthy fdv then fdv else Arr [])])"
proof -
  have custom: "hasCustomParams params \<Longrightarrow> params = Some (case params of Some p \<Rightarrow> p | None \<Rightarrow> [])"
    by (cases params) (simp_all add: hasCustomParams_def)
  show ?thesis
    using has_recognized_param_iff[OF assms] custom
    by (simp add: query_base_def js_or_def)
qed

theorem query_base_priority_witness:
  "set (keys [(''page'', Str ''2'')]) \<subseteq> set validQueryParams
   \<and> has_recognized_param [(''page'', Str ''2'')]
   \<and> query_base [(''page'', Str ''2'')] (Some [(''page'', Num (Fin 3))]) (Arr [])
       = [(''page'', Str ''2'')]
   \<and> \<not> has_recognized_param []
   \<and> hasCustomParams (Some [(''page'', Num (Fin 3)), (''filters'', Arr [])])
   \<and> query_base [] (Some [(''page'', Num (Fin 3)), (''filters'', Arr [])]) (Arr [])
       = [(''page'', Num (Fin 3)), (''filters'', Arr [])]
   \<and> \<not> hasCustomParams (Some neutral_params)
   \<and> query_base [] (Some neutral_params) (Arr [FilterItem ''published'' ''='' (Bool True)])
       = [(''filters'', Arr [FilterItem ''published'' ''='' (Bool True)])]
   \<and> query_base [] None Undefined = [(''filters'', Arr [])]"
  using query_base_priority[of "[(''page'', Str ''2'')]" "Some [(''page'', Num (Fin 3))]" "Arr []"]
    query_base_priority[of "[]" "Some [(''page'', Num (Fin 3)), (''filters'', Arr [])]" "Arr []"]
    query_base_priority[of "[]" "Some neutral_params" "Arr [FilterItem ''published'' ''='' (Bool True)]"]
    query_base_priority[of "[]" None Undefined]
  by (simp add: keys_def validQueryParams_def has_recognized_param_def hasCustomParams_Some
      neutral_params_def is_set_def js_gt_def hasCustomParams_def is_nullish_def)

section \<open>The default order\<close>

text \<open>
  Claim C10. When the chosen base has a sort field (a truthy \<^verbatim>\<open>sort\<close>, as the source
  tests it) and no \<^verbatim>\<open>order\<close>, the resolved parameter set has no \<^verbatim>\<open>order\<close> either
  and keeps the sort field. The default order is written only together with the default
  sort field: whenever the resolved order is not the order of the base, the base had no
  sort, and the resolved sort and order are the caller's defaults.
\<close>

theorem getQuery_order_only_with_sort:
  "(truthy (js_get (query_base qfl params fdv) ''sort'')
      \<and> ''order'' \<notin> set (keys (query_base qfl params fdv)) \<longrightarrow>
        ''order'' \<notin> set (keys (getQuery qfl params fdv sp pp))
      \<and> js_get (getQuery qfl params fdv sp pp) ''order'' = Undefined
      \<and> js_get (getQuery qfl params fdv sp pp) ''sort'' = js_get (query_base qfl params fdv) ''sort'')
   \<and> (js_get (getQuery qfl params fdv sp pp) ''order'' \<noteq> js_get (query_base qfl params fdv) ''order'' \<longrightarrow>
        \<not> truthy (js_get (query_base qfl params fdv) ''sort'')
      \<and> js_get (getQuery qfl params fdv sp pp) ''sort'' = Str (field sp)
      \<and> js_get (getQuery qfl params fdv sp pp) ''order'' = Str (order sp))"
  by (simp add: order_in_keys_getQuery getQuery_order getQuery_sort js_get_Undefined)

theorem getQuery_order_only_with_sort_witness:
  "truthy (js_get (query_base [(''sort'', Str ''name'')] None Undefined) ''sort'')
   \<and> ''order'' \<notin> set (keys (query_base [(''sort'', Str ''name'')] None Undefined))
   \<and> ''order'' \<notin> set (keys (getQuery [(''sort'', Str ''name'')] None Undefined defaultSort (Fin 10)))
   \<and> js_get (getQuery [(''sort'', Str ''name'')] None Undefined defaultSort (Fin 10)) ''order'' = Undefined
   \<and> js_get (getQuery [(''sort'', Str ''name'')] None Undefined defaultSort (Fin 10)) ''sort'' = Str ''name''
   \<and> js_get (getQuery [(''page'', Str ''2'')] None Undefined defaultSort (Fin 10)) ''order''
        \<noteq> js_get (query_base [(''page'', Str ''2'')] None Undefined) ''order''
   \<and> js_get (getQuery [(''page'', Str ''2'')] None Undefined defaultSort (Fin 10)) ''sort'' = Str ''id''
   \<and> js_get (getQuery [(''page'', Str ''2'')] None Undefined defaultSort (Fin 10)) ''order'' = Str ''ASC''"
  using getQuery_order_only_with_sort[of "[(''sort'', Str ''name'')]" None Undefined defaultSort "Fin 10"]
    getQuery_order_only_with_sort[of "[(''page'', Str ''2'')]" None Undefined defaultSort "Fin 10"]
  by (simp add: query_base_def keys_def defaultSort_def getQuery_order)

section \<open>Positivity of page and perPage\<close>

text \<open>
  Claim C5 says that every parameter set \<^verbatim>\<open>getQuery\<close> returns has
  \<^verbatim>\<open>page \<ge> 1\<close> and \<^verbatim>\<open>perPage \<ge> 1\<close>. It fails for the URL query
  \<^verbatim>\<open>?page=0\<close>: \<^verbatim>\<open>parseInt("0", 10)\<close> is 0, which is not \<^verbatim>\<open>NaN\<close>, so
  \<^verbatim>\<open>getNumberOrDefault\<close> returns it and the resolved page is 0.
\<close>

theorem getQuery_invariant_counterexample:
  "\<not> ParameterSet_invariant (getQuery [(''page'', Str ''0'')] None Undefined defaultSort (Fin 10))"
  by (simp add: ParameterSet_invariant_def positive_def getQuery_page query_base_def keys_def
      is_nullish_def getNumberOrDefault_Str parseInt_def is_whitespace_def is_digit_def
      digits_val_def digit_val_def)

text \<open>An array of two or more elements converts to \<^verbatim>\<open>NaN\<close>: its string has a
  comma.\<close>

lemma comma_in_join:
  "2 \<le> length xs \<Longrightarrow> CHR '','' \<in> set (join '','' xs)"
  by (induction "'',''" xs rule: join.induct) auto

lemma in_dropWhile: "c \<in> set s \<Longrightarrow> \<not> P c \<Longrightarrow> c \<in> set (dropWhile P s)"
  by (induction s) auto

lemma in_trim: "c \<in> set s \<Longrightarrow> \<not> is_whitespace c \<Longrightarrow> c \<in> set (trim s)"
  by (simp add: trim_def in_dropWhile)

lemma StringToNumber_comma: "CHR '','' \<in> set s \<Longrightarrow> StringToNumber s = NaN"
proof -
  assume c: "CHR '','' \<in> set s"
  have ws: "\<not> is_whitespace CHR '',''" by (simp add: is_whitespace_def)
  have dg: "\<not> is_digit CHR '',''" by (simp add: is_digit_def)
  from c ws have t: "CHR '','' \<in> set (trim s)" by (rule in_trim)
  then have ne: "trim s \<noteq> []" by auto
  have "CHR '','' \<in> set (snd (split_sign (trim s)))"
    using t by (cases "trim s") (auto split: if_splits)
  then have "\<not> list_all is_digit (snd (split_sign (trim s)))"
    using dg by (auto simp: list_all_iff)
  with ne show ?thesis
    by (auto simp: StringToNumber_def Let_def split: prod.splits)
qed

lemma ToNumber_Arr: "2 \<le> length xs \<Longrightarrow> ToNumber (Arr xs) = NaN"
  by (simp add: StringToNumber_comma comma_in_join)

lemma getNumberOrDefault_Arr: "2 \<le> length xs \<Longrightarrow> getNumberOrDefault (Arr xs) d = Num d"
  by (simp add: getNumberOrDefault_def isNaN_def ToNumber_Arr del: ToNumber.simps)

text \<open>
  Claim C5, amended. The resolver falls back to 1 and 10 only where no number can be
  read; a number that can be read is passed on as it is. So the \<^verbatim>\<open>page\<close> of the
  parameter set \<^verbatim>\<open>getQuery\<close> returns is at least 1 exactly when the base supplies no
  number below 1 for it, and its \<^verbatim>\<open>perPage\<close> is at least 1 exactly when neither the
  base nor, where the base has none, the caller's default supplies a number below 1.
\<close>

theorem getQuery_positive_iff:
  assumes "url_or_store_value (js_get (query_base qfl params fdv) ''page'')"
    and "url_or_store_value (js_get (query_base qfl params fdv) ''perPage'')"
  shows "(positive (js_get (getQuery qfl params fdv sp pp) ''page'') \<longleftrightarrow>
            \<not> below_one (supplied_number (js_get (query_base qfl params fdv) ''page'')))
    \<and> (positive (js_get (getQuery qfl params fdv sp pp) ''perPage'') \<longleftrightarrow>
            \<not> below_one (if is_nullish (js_get (query_base qfl params fdv) ''perPage'') then pp
                          else supplied_number (js_get (query_base qfl params fdv) ''perPage'')))"
proof -
  have num: "positive (getNumberOrDefault (Num n) (Fin k)) \<longleftrightarrow> \<not> below_one n" if "1 \<le> k" for n k
    using that by (cases n) (auto simp: getNumberOrDefault_Num positive_def below_one_def)
  have str: "positive (getNumberOrDefault (Str s) (Fin k)) \<longleftrightarrow> \<not> below_one (parseInt s)"
    if "1 \<le> k" for s k
    using that by (cases "parseInt s") (auto simp: getNumberOrDefault_Str positive_def below_one_def)
  have coerce: "positive (getNumberOrDefault v (Fin k)) \<longleftrightarrow> \<not> below_one (supplied_number v)"
    if "1 \<le> k" "url_or_store_value v" "\<not> is_nullish v" for v k
    using that num[of k] str[of k]
    by (cases v)
      (simp_all add: supplied_number_def url_or_store_value_def is_nullish_def
        getNumberOrDefault_Arr positive_def below_one_def)
  have page: "positive (js_get (getQuery qfl params fdv sp pp) ''page'') \<longleftrightarrow>
            \<not> below_one (supplied_number (js_get (query_base qfl params fdv) ''page''))"
  proof (cases "is_nullish (js_get (query_base qfl params fdv) ''page'')")
    case True
    then show ?thesis
      using num[of 1 "Fin 1"]
      by (auto simp: getQuery_page is_nullish_def supplied_number_def below_one_def)
  next
    case False
    then show ?thesis using coerce[OF _ assms(1)] by (simp add: getQuery_page)
  qed
  have perPage: "positive (js_get (getQuery qfl params fdv sp pp) ''perPage'') \<longleftrightarrow>
            \<not> below_one (if is_nullish (js_get (query_base qfl params fdv) ''perPage'') then pp
                          else supplied_number (js_get (query_base qfl params fdv) ''perPage''))"
  proof (cases "is_nullish (js_get (query_base qfl params fdv) ''perPage'')")
    case True
    then show ?thesis using num[of 10 pp] by (simp add: getQuery_perPage)
  next
    case False
    then show ?thesis using coerce[OF _ assms(2)] by (simp add: getQuery_perPage)
  qed
  from page perPage show ?thesis by simp
qed

theorem getQuery_positive_iff_witness:
  "url_or_store_value (js_get (query_base [(''page'', Str ''3'')] None Undefined) ''page'')
   \<and> url_or_store_value (js_get (query_base [(''page'', Str ''3'')] None Undefined) ''perPage'')
   \<and> positive (js_get (getQuery [(''page'', Str ''3'')] None Undefined defaultSort (Fin 25)) ''page'')
   \<and> positive (js_get (getQuery [(''page'', Str ''3'')] None Undefined defaultSort (Fin 25)) ''perPage'')
   \<and> url_or_store_value (js_get (query_base [(''page'', Str ''-3''), (''perPage'', Str ''x'')] None Undefined) ''page'')
   \<and> url_or_store_value (js_get (query_base [(''page'', Str ''-3''), (''perPage'', Str ''x'')] None Undefined) ''perPage'')
   \<and> \<not> positive (js_get (getQuery [(''page'', Str ''-3''), (''perPage'', Str ''x'')] None Undefined defaultSort (Fin 25)) ''page'')
   \<and> positive (js_get (getQuery [(''page'', Str ''-3''), (''perPage'', Str ''x'')] None Undefined defaultSort (Fin 25)) ''perPage'')"
  using getQuery_positive_iff[of "[(''page'', Str ''3'')]" None Undefined defaultSort "Fin 25"]
    getQuery_positive_iff[of "[(''page'', Str ''-3''), (''perPage'', Str ''x'')]" None Undefined defaultSort "Fin 25"]
  by (simp add: query_base_def keys_def url_or_store_value_def supplied_number_def below_one_def
      is_nullish_def parseInt_def is_whitespace_def is_digit_def digits_val_def digit_val_def)

section \<open>Reading the location: lemmas\<close>

lemma js_get_js_delete: "js_get (js_delete obj k) k' = (if k' = k then Undefined else js_get obj k')"
  by (simp add: js_get_def js_delete_def delete_conv')

lemma js_delete_filter: "js_delete obj k = filter (\<lambda>(k', v). k' \<noteq> k) obj"
  by (induction obj) (auto simp: js_delete_def)

lemma js_get_pickBy:
  "js_get (pickBy obj (\<lambda>v k. P k)) k = (if P k then js_get obj k else Undefined)"
  by (induction obj) (auto simp: pickBy_def js_get_def)


lemma in_keys_js_delete: "k' \<in> set (keys (js_delete obj k)) \<longleftrightarrow> k' \<noteq> k \<and> k' \<in> set (keys obj)"
  by (auto simp: keys_def js_delete_filter)





lemma parseObject_parsed:
  "js_get q f = Str s \<Longrightarrow> s \<noteq> [] \<Longrightarrow> jp s = Some v \<Longrightarrow> parseObject jp q f = js_set q f v"
  by (simp add: parseObject_def)

lemma js_get_parseObject_other: "k \<noteq> f \<Longrightarrow> js_get (parseObject jp q f) k = js_get q k"
  by (simp add: parseObject_def js_get_js_set js_get_js_delete split: jsval.splits option.splits)



lemma in_keys_if_defined: "js_get obj k \<noteq> Undefined \<Longrightarrow> k \<in> set (keys obj)"
  using js_get_Undefined by blast

lemma parseQueryFromLocation_unfold:
  "parseQueryFromLocation jp search = legacy_filter jp (parsed_objects jp search)"
  unfolding parseQueryFromLocation_def parsed_objects_def legacy_filter_def Let_def by (rule refl)

lemma valid_keys [simp]:
  "''filters'' \<in> set validQueryParams" "''displayedFilters'' \<in> set validQueryParams"
  "''filter'' \<in> set validQueryParams" "''page'' \<in> set validQueryParams"
  "''perPage'' \<in> set validQueryParams" "''sort'' \<in> set validQueryParams"
  "''order'' \<in> set validQueryParams"
  by (simp_all add: validQueryParams_def)

lemma js_get_parsed_objects_filter:
  "js_get (parsed_objects jp search) ''filter'' = js_get search ''filter''"
  by (simp add: parsed_objects_def js_get_parseObject_other js_get_pickBy)

lemma js_get_parsed_objects_other:
  "k \<in> set validQueryParams \<Longrightarrow> k \<noteq> ''filters'' \<Longrightarrow> k \<noteq> ''displayedFilters'' \<Longrightarrow>
   js_get (parsed_objects jp search) k = js_get search k"
  by (simp add: parsed_objects_def js_get_parseObject_other js_get_pickBy)

lemma keys_parsed_objects:
  "k \<in> set (keys (parsed_objects jp search)) \<Longrightarrow> k \<in> set validQueryParams \<and> k \<in> set (keys search)"
proof -
  assume k: "k \<in> set (keys (parsed_objects jp search))"
  have inKeys: "js_get q f = Str s \<Longrightarrow> f \<in> set (keys q)" for q f s
    by (rule in_keys_if_defined) simp
  have step: "set (keys (parseObject jp q f)) \<subseteq> set (keys q)" for q f
    using inKeys[of q f]
    by (auto simp: parseObject_def set_keys_js_set in_keys_js_delete split: jsval.splits option.splits)
  have "k \<in> set (keys (pickBy search (\<lambda>v k. k \<in> set validQueryParams)))"
    using k step unfolding parsed_objects_def by blast
  then show ?thesis by (auto simp: pickBy_def keys_def)
qed

lemma parsed_objects_filters_absent:
  "''filters'' \<notin> set (keys search) \<Longrightarrow> js_get (parsed_objects jp search) ''filters'' = Undefined"
  using keys_parsed_objects[of "''filters''" jp search] js_get_Undefined by blast


lemma map_keys_values:
  "distinct (map fst kvs) \<Longrightarrow>
   map (\<lambda>name. FilterItem name operator (js_get kvs name)) (keys kvs)
     = map (\<lambda>(name, v). FilterItem name operator v) kvs"
  by (auto simp: keys_def js_get_def)

lemma in_keys_getQuery_other:
  "k \<notin> {''page'', ''perPage'', ''sort'', ''order''} \<Longrightarrow>
   k \<in> set (keys (getQuery qfl params fdv sp pp)) \<longleftrightarrow> k \<in> set (keys (query_base qfl params fdv))"
  by (simp add: getQuery_def inject_defaults_def Let_def in_keys_js_set)

section \<open>The legacy filter key\<close>

text \<open>
  Claim C7. For a URL query whose only key that carries filters is the deprecated
  \<^verbatim>\<open>filter\<close>, holding the text of a JSON object, \<^verbatim>\<open>parseQueryFromLocation\<close>
  returns \<^verbatim>\<open>filters\<close> as the list with one item per key of the object, in the order
  of its keys: the object \<^verbatim>\<open>{field: key, operator: "=", value: the object's value for
  the key}\<close>; and the \<^verbatim>\<open>filter\<close> key is not in the result. The resolved parameter
  set has the same \<^verbatim>\<open>filters\<close> and no \<^verbatim>\<open>filter\<close>. For
  \<^verbatim>\<open>filter={"published":true}\<close> the filters are
  \<^verbatim>\<open>[{field: "published", operator: "=", value: true}]\<close>.
\<close>

theorem legacy_filter_conversion:
  assumes "''filters'' \<notin> set (keys search)"
    and "js_get search ''filter'' = Str s" and "s \<noteq> []"
    and "JSON_parse s = Some (Obj kvs)" and "distinct (map fst kvs)"
  shows "js_get (parseQueryFromLocation JSON_parse search) ''filters''
           = Arr (map (\<lambda>(name, v).
                         Obj [(''field'', Str name), (''operator'', Str ''=''), (''value'', v)]) kvs)
    \<and> ''filter'' \<notin> set (keys (parseQueryFromLocation JSON_parse search))
    \<and> js_get (getQuery (parseQueryFromLocation JSON_parse search) params fdv sp pp) ''filters''
           = Arr (map (\<lambda>(name, v).
                         Obj [(''field'', Str name), (''operator'', Str ''=''), (''value'', v)]) kvs)
    \<and> ''filter'' \<notin> set (keys (getQuery (parseQueryFromLocation JSON_parse search) params fdv sp pp))"
proof -
  let ?items = "Arr (map (\<lambda>(name, v).
                      Obj [(''field'', Str name), (''operator'', Str ''=''), (''value'', v)]) kvs)"
  let ?q = "parseQueryFromLocation JSON_parse search"
  have items: "Arr (map (\<lambda>name. FilterItem name ''='' (js_get kvs name)) (keys kvs)) = ?items"
    using assms(5) by (simp add: map_keys_values) (auto simp: FilterItem_def)
  have "?q = js_delete (js_set (parsed_objects JSON_parse search) ''filters''
                (Arr (map (\<lambda>name. FilterItem name ''='' (js_get kvs name)) (keys kvs)))) ''filter''"
    using assms(1-4)
    by (simp add: parseQueryFromLocation_unfold legacy_filter_def parsed_objects_filters_absent
        js_get_parsed_objects_filter)
  then have q: "?q = js_delete (js_set (parsed_objects JSON_parse search) ''filters'' ?items) ''filter''"
    by (simp only: items)
  have filters: "js_get ?q ''filters'' = ?items"
    by (simp add: q js_get_js_delete js_get_js_set)
  have no_filter: "''filter'' \<notin> set (keys ?q)"
    by (simp add: q in_keys_js_delete)
  have "''filters'' \<in> set (keys ?q)"
    by (simp add: q in_keys_js_delete in_keys_js_set)
  then have "keys ?q \<noteq> []" by auto
  then have base: "query_base ?q params fdv = ?q"
    by (simp add: query_base_def)
  from filters no_filter base show ?thesis
    by (simp add: getQuery_other in_keys_getQuery_other)
qed

theorem legacy_filter_conversion_witness:
  \<open>''filters'' \<notin> set (keys [(''filter'', Str ''{"published":true}'')])
   \<and> JSON_parse_sample ''{"published":true}'' = Some (Obj [(''published'', Bool True)])
   \<and> js_get (parseQueryFromLocation JSON_parse_sample [(''filter'', Str ''{"published":true}'')])
        ''filters''
        = Arr [Obj [(''field'', Str ''published''), (''operator'', Str ''=''), (''value'', Bool True)]]
   \<and> ''filter'' \<notin> set (keys (parseQueryFromLocation JSON_parse_sample
                                  [(''filter'', Str ''{"published":true}'')]))
   \<and> js_get (getQuery (parseQueryFromLocation JSON_parse_sample
                         [(''filter'', Str ''{"published":true}'')]) None Undefined defaultSort (Fin 10))
        ''filters''
        = Arr [Obj [(''field'', Str ''published''), (''operator'', Str ''=''), (''value'', Bool True)]]
   \<and> ''filter'' \<notin> set (keys (getQuery (parseQueryFromLocation JSON_parse_sample
                         [(''filter'', Str ''{"published":true}'')]) None Undefined defaultSort (Fin 10)))\<close>
  using legacy_filter_conversion[of \<open>[(''filter'', Str ''{"published":true}'')]\<close>
      \<open>''{"published":true}''\<close> JSON_parse_sample \<open>[(''published'', Bool True)]\<close>
      None Undefined defaultSort "Fin 10"]
  by (simp add: keys_def JSON_parse_sample_def)

section \<open>Malformed JSON in the query\<close>







section \<open>Numerals written and read back\<close>

lemma is_digit_digit_char: "d < 10 \<Longrightarrow> is_digit (digit_char d)"
  by (simp add: is_digit_def digit_char_def)

lemma digit_val_digit_char: "d < 10 \<Longrightarrow> digit_val (digit_char d) = d"
  by (simp add: digit_val_def digit_char_def)

lemma show_nat_digits: "list_all is_digit (show_nat n)"
  by (induction n rule: show_nat.induct) (subst show_nat.simps, simp add: is_digit_digit_char)

lemma show_nat_nonempty: "show_nat n \<noteq> []"
  by (subst show_nat.simps) simp

lemma digits_val_snoc: "digits_val (ds @ [c]) = 10 * digits_val ds + digit_val c"
  by (simp add: digits_val_def)

lemma digits_val_show_nat: "digits_val (show_nat n) = n"
proof (induction n rule: show_nat.induct)
  case (1 n)
  show ?case
  proof (cases "n < 10")
    case True
    then show ?thesis
      by (subst show_nat.simps) (simp add: digits_val_def digit_val_digit_char)
  next
    case False
    with 1 show ?thesis
      by (subst show_nat.simps) (simp add: digits_val_snoc digit_val_digit_char)
  qed
qed

lemma digit_not_whitespace: "is_digit c \<Longrightarrow> \<not> is_whitespace c"
  by (auto simp: is_digit_def is_whitespace_def)

lemma digit_not_sign: "is_digit c \<Longrightarrow> c \<noteq> CHR ''-'' \<and> c \<noteq> CHR ''+''"
  by (auto simp: is_digit_def)

lemma parseInt_digits:
  assumes "ds \<noteq> []" "list_all is_digit ds"
  shows "parseInt ds = Fin (int (digits_val ds))"
    and "parseInt (CHR ''-'' # ds) = Fin (- int (digits_val ds))"
proof -
  obtain c cs where ds: "ds = c # cs" using assms(1) by (cases ds) auto
  with assms(2) have c: "is_digit c" by simp
  have tw: "takeWhile is_digit ds = ds"
    using assms(2) by (simp add: list_all_iff)
  have dw: "dropWhile is_whitespace ds = ds"
    using c digit_not_whitespace by (simp add: ds)
  have sg: "split_sign ds = (1, ds)"
    using digit_not_sign[OF c] by (simp add: ds)
  show "parseInt ds = Fin (int (digits_val ds))"
    using assms(1) by (simp add: parseInt_def dw sg tw)
  have "\<not> is_whitespace CHR ''-''" by (simp add: is_whitespace_def)
  then show "parseInt (CHR ''-'' # ds) = Fin (- int (digits_val ds))"
    using assms(1) by (simp add: parseInt_def tw)
qed

lemma parseInt_show_int: "parseInt (show_int i) = Fin i"
  using parseInt_digits[OF show_nat_nonempty show_nat_digits]
  by (simp add: show_int_def digits_val_show_nat)

lemma digit_char_table:
  "digit_char 0 = CHR ''0''" "digit_char 1 = CHR ''1''" "digit_char (Suc 0) = CHR ''1''"
  "digit_char 2 = CHR ''2''" "digit_char 3 = CHR ''3''" "digit_char 4 = CHR ''4''"
  "digit_char 5 = CHR ''5''" "digit_char 6 = CHR ''6''" "digit_char 7 = CHR ''7''"
  "digit_char 8 = CHR ''8''" "digit_char 9 = CHR ''9''"
  by code_simp+

lemma takeWhile_prefix:
  "list_all P xs \<Longrightarrow> ys = [] \<or> \<not> P (hd ys) \<Longrightarrow> takeWhile P (xs @ ys) = xs"
  by (induction xs) (auto simp: takeWhile_eq_Nil_iff)

lemma digits_val_zeros: "digits_val (replicate k (CHR ''0'') @ ds) = digits_val ds"
proof -
  have "foldl (\<lambda>acc c. 10 * acc + digit_val c) 0 (replicate k (CHR ''0'')) = 0"
    by (induction k) (simp_all add: digit_val_def)
  then show ?thesis by (simp add: digits_val_def)
qed

lemma parseInt_signed_digits:
  assumes "list_all is_whitespace ws" and "sn \<in> {[], ''+'', ''-''}"
    and "ds \<noteq> []" and "list_all is_digit ds"
    and "rest = [] \<or> \<not> is_digit (hd rest)"
  shows "parseInt (ws @ sn @ ds @ rest)
           = Fin (if sn = ''-'' then - int (digits_val ds) else int (digits_val ds))"
proof -
  have skip: "dropWhile is_whitespace (ws @ x) = dropWhile is_whitespace x" for x
    using assms(1) by (simp add: list_all_iff dropWhile_append2)
  have digits: "takeWhile is_digit (ds @ rest) = ds"
    using assms(4,5) by (rule takeWhile_prefix)
  obtain c cs where c: "ds = c # cs" "is_digit c"
    using assms(3,4) by (cases ds) auto
  have ws: "\<not> is_whitespace CHR ''-''" "\<not> is_whitespace CHR ''+''"
    by (simp_all add: is_whitespace_def)
  have dw: "dropWhile is_whitespace (ds @ rest) = ds @ rest"
    using c digit_not_whitespace by simp
  have sg: "split_sign (ds @ rest) = (1, ds @ rest)"
    using c digit_not_sign by simp
  from assms(2) consider "sn = []" | "sn = ''+''" | "sn = ''-''" by auto
  then show ?thesis
  proof cases
    case 1
    then show ?thesis using assms(3) by (simp add: parseInt_def skip dw sg digits)
  next
    case 2
    then show ?thesis using assms(3) ws by (simp add: parseInt_def skip digits)
  next
    case 3
    then show ?thesis using assms(3) ws by (simp add: parseInt_def skip digits)
  qed
qed

lemma parseInt_numeral:
  assumes "list_all is_whitespace ws" and "sn \<in> {[], ''+'', ''-''}"
    and "rest = [] \<or> \<not> is_digit (hd rest)"
  shows "parseInt (ws @ sn @ replicate k (CHR ''0'') @ show_nat n @ rest)
           = Fin (if sn = ''-'' then - int n else int n)"
proof -
  have zero: "is_digit CHR ''0''" by (simp add: is_digit_def)
  have d: "list_all is_digit (replicate k (CHR ''0'') @ show_nat n)"
    using show_nat_digits[of n] zero by (auto simp: list_all_iff)
  have ne: "replicate k (CHR ''0'') @ show_nat n \<noteq> []"
    using show_nat_nonempty by simp
  show ?thesis
    using parseInt_signed_digits[OF assms(1,2) ne d assms(3)]
    by (simp add: digits_val_zeros digits_val_show_nat)
qed

section \<open>Defaults and coercion\<close>

text \<open>
  Claim C4 says that \<^verbatim>\<open>getNumberOrDefault\<close> takes the fallback for every non-numeric
  string. \<^verbatim>\<open>"12abc"\<close> is no number (\<^verbatim>\<open>Number("12abc")\<close> is \<^verbatim>\<open>NaN\<close>), but
  \<^verbatim>\<open>parseInt\<close> reads the integer a string starts with and ignores what follows it: the
  result is 12, not the fallback 10.
\<close>

theorem non_numeric_string_counterexample:
  "isNaN (Str ''12abc'')
   \<and> getNumberOrDefault (Str ''12abc'') (Fin 10) = Num (Fin 12)
   \<and> getNumberOrDefault (Str ''12abc'') (Fin 10) \<noteq> Num (Fin 10)"
  by code_simp

text \<open>
  Claim C4, amended. Whatever the base, \<^verbatim>\<open>getQuery\<close> puts the caller's default sort
  field and order into it when it has no (truthy) sort, the caller's default
  \<^verbatim>\<open>perPage\<close> when \<^verbatim>\<open>perPage\<close> is absent or \<^verbatim>\<open>null\<close>, and page 1 when
  \<^verbatim>\<open>page\<close> is absent or \<^verbatim>\<open>null\<close>; then \<^verbatim>\<open>page\<close> and \<^verbatim>\<open>perPage\<close> go through
  \<^verbatim>\<open>getNumberOrDefault\<close> with the fallbacks 1 and 10. \<^verbatim>\<open>getNumberOrDefault\<close>
  maps \<^verbatim>\<open>"abc"\<close> with default 10 to 10, \<^verbatim>\<open>"7"\<close> to 7, \<^verbatim>\<open>undefined\<close> with
  default 1 to 1, and \<^verbatim>\<open>"12abc"\<close> to 12. It takes the fallback for every string
  that does not start, after white space and an optional sign, with a decimal digit, for
  \<^verbatim>\<open>undefined\<close> and for \<^verbatim>\<open>NaN\<close>. Every other string is made of white space, an
  optional sign \<^verbatim>\<open>+\<close> or \<^verbatim>\<open>-\<close>, leading zeros, the decimal numeral of a natural number
  \<open>n\<close>, and a rest that is empty or starts with anything but a digit; for \<open>n\<close> up to
  \<open>2^53\<close> it gives \<open>n\<close>, negated under the sign \<^verbatim>\<open>-\<close>, whatever the rest. A number
  that is not \<^verbatim>\<open>NaN\<close> is returned as it is.
\<close>

theorem getQuery_defaults_and_parseInt:
  assumes "n \<le> 2 ^ 53" and "list_all is_whitespace ws" and "sn \<in> {[], ''+'', ''-''}"
    and "rest = [] \<or> \<not> is_digit (hd rest)"
  shows "(\<not> truthy (js_get (query_base qfl params fdv) ''sort'') \<longrightarrow>
       js_get (getQuery qfl params fdv sp pp) ''sort'' = Str (field sp)
     \<and> js_get (getQuery qfl params fdv sp pp) ''order'' = Str (order sp))
   \<and> (truthy (js_get (query_base qfl params fdv) ''sort'') \<longrightarrow>
       js_get (getQuery qfl params fdv sp pp) ''sort'' = js_get (query_base qfl params fdv) ''sort''
     \<and> js_get (getQuery qfl params fdv sp pp) ''order'' = js_get (query_base qfl params fdv) ''order'')
   \<and> js_get (getQuery qfl params fdv sp pp) ''perPage'' =
       getNumberOrDefault
         (if is_nullish (js_get (query_base qfl params fdv) ''perPage'') then Num pp
          else js_get (query_base qfl params fdv) ''perPage'') (Fin 10)
   \<and> js_get (getQuery qfl params fdv sp pp) ''page'' =
       getNumberOrDefault
         (if is_nullish (js_get (query_base qfl params fdv) ''page'') then Num (Fin 1)
          else js_get (query_base qfl params fdv) ''page'') (Fin 1)
   \<and> getNumberOrDefault (Str ''abc'') (Fin 10) = Num (Fin 10)
   \<and> getNumberOrDefault (Str ''7'') (Fin 10) = Num (Fin 7)
   \<and> getNumberOrDefault Undefined (Fin 1) = Num (Fin 1)
   \<and> getNumberOrDefault (Str ''12abc'') (Fin 10) = Num (Fin 12)
   \<and> (\<not> has_integer_prefix s \<longrightarrow> getNumberOrDefault (Str s) d = Num d)
   \<and> has_integer_prefix (ws @ sn @ replicate k (CHR ''0'') @ show_nat n @ rest)
   \<and> getNumberOrDefault (Str (ws @ sn @ replicate k (CHR ''0'') @ show_nat n @ rest)) d
        = Num (Fin (if sn = ''-'' then - int n else int n))
   \<and> getNumberOrDefault Undefined d = Num d
   \<and> getNumberOrDefault (Num NaN) d = Num d
   \<and> getNumberOrDefault (Num (Fin m)) d = Num (Fin m)"
proof -
  have ex1: "getNumberOrDefault (Str ''abc'') (Fin 10) = Num (Fin 10)"
    by code_simp
  have ex2: "getNumberOrDefault (Str ''7'') (Fin 10) = Num (Fin 7)"
    by code_simp
  have ex3: "getNumberOrDefault (Str ''12abc'') (Fin 10) = Num (Fin 12)"
    by code_simp
  have non_numeric: "\<not> has_integer_prefix s \<longrightarrow> getNumberOrDefault (Str s) d = Num d"
    using parseInt_NaN_iff[of s] by (auto simp: getNumberOrDefault_Str)
  have read: "parseInt (ws @ sn @ replicate k (CHR ''0'') @ show_nat n @ rest)
           = Fin (if sn = ''-'' then - int n else int n)"
    using assms(2,3,4) by (rule parseInt_numeral)
  have prefix: "has_integer_prefix (ws @ sn @ replicate k (CHR ''0'') @ show_nat n @ rest)"
    using read parseInt_NaN_iff[of "ws @ sn @ replicate k (CHR ''0'') @ show_nat n @ rest"]
    by simp
  have numeral: "getNumberOrDefault (Str (ws @ sn @ replicate k (CHR ''0'') @ show_nat n @ rest)) d
        = Num (Fin (if sn = ''-'' then - int n else int n))"
    by (simp add: getNumberOrDefault_Str read)
  show ?thesis
    using ex1 ex2 ex3 non_numeric prefix numeral
    by (simp add: getQuery_sort getQuery_order getQuery_page getQuery_perPage
        getNumberOrDefault_Undefined getNumberOrDefault_Num)
qed

theorem getQuery_defaults_and_parseInt_witness:
  "(42 :: nat) \<le> 2 ^ 53 \<and> list_all is_whitespace [CHR 0xA0, CHR '' '']
   \<and> \<not> is_digit (hd ''.5px'')
   \<and> js_get (getQuery [(''filters'', Arr [])] None Undefined \<lparr>field = ''title'', order = ''DESC''\<rparr> (Fin 25))
      ''sort'' = Str ''title''
   \<and> js_get (getQuery [(''filters'', Arr [])] None Undefined \<lparr>field = ''title'', order = ''DESC''\<rparr> (Fin 25))
      ''order'' = Str ''DESC''
   \<and> js_get (getQuery [(''filters'', Arr [])] None Undefined \<lparr>field = ''title'', order = ''DESC''\<rparr> (Fin 25))
      ''perPage'' = Num (Fin 25)
   \<and> js_get (getQuery [(''filters'', Arr [])] None Undefined \<lparr>field = ''title'', order = ''DESC''\<rparr> (Fin 25))
      ''page'' = Num (Fin 1)
   \<and> js_get (getQuery [(''sort'', Str ''name''), (''page'', Str ''x''), (''perPage'', Str ''y'')] None
        Undefined \<lparr>field = ''title'', order = ''DESC''\<rparr> (Fin 25)) ''sort'' = Str ''name''
   \<and> js_get (getQuery [(''sort'', Str ''name''), (''page'', Str ''x''), (''perPage'', Str ''y'')] None
        Undefined \<lparr>field = ''title'', order = ''DESC''\<rparr> (Fin 25)) ''page'' = Num (Fin 1)
   \<and> js_get (getQuery [(''sort'', Str ''name''), (''page'', Str ''x''), (''perPage'', Str ''y'')] None
        Undefined \<lparr>field = ''title'', order = ''DESC''\<rparr> (Fin 25)) ''perPage'' = Num (Fin 10)
   \<and> \<not> has_integer_prefix ''abc'' \<and> getNumberOrDefault (Str ''abc'') (Fin 10) = Num (Fin 10)
   \<and> getNumberOrDefault (Str ([CHR 0xA0, CHR '' ''] @ ''+'' @ ''00'' @ ''42'' @ ''.5px'')) (Fin 10)
        = Num (Fin 42)
   \<and> getNumberOrDefault (Str ''-42'') (Fin 10) = Num (Fin (- 42))"
proof -
  have s42: "show_nat 42 = ''42''"
    by code_simp
  have zeros: "replicate 2 (CHR ''0'') = ''00''" "replicate 0 (CHR ''0'') = []"
    by (simp_all add: numeral_2_eq_2)
  show ?thesis
    using getQuery_defaults_and_parseInt[of 42 "[CHR 0xA0, CHR '' '']" "''+''" "''.5px''"
        "[(''filters'', Arr [])]" None Undefined
        "\<lparr>field = ''title'', order = ''DESC''\<rparr>" "Fin 25" "''abc''" "Fin 10" 2 0]
      getQuery_defaults_and_parseInt[of 42 "[]" "''-''" "[]"
        "[(''sort'', Str ''name''), (''page'', Str ''x''), (''perPage'', Str ''y'')]"
        None Undefined "\<lparr>field = ''title'', order = ''DESC''\<rparr>" "Fin 25" "''abc''" "Fin 10" 0 0]
    by (simp add: s42 zeros query_base_def keys_def is_nullish_def has_integer_prefix_def
        is_whitespace_def is_digit_def getNumberOrDefault_Str getNumberOrDefault_Num parseInt_def)
qed

section \<open>Batched changes\<close>

lemma submit_all_pending:
  "tempParams st = Some p \<Longrightarrow>
   submit_all r q acts st = st\<lparr>tempParams := Some (foldl r p acts)\<rparr>"
proof (induction acts arbitrary: st p)
  case Nil
  then show ?case by (simp add: submit_all_def)
next
  case (Cons a acts)
  have step: "changeParams r q a st = st\<lparr>tempParams := Some (r p a)\<rparr>"
    using Cons.prems by (simp add: changeParams_def)
  have "submit_all r q (a # acts) st = submit_all r q acts (changeParams r q a st)"
    by (simp add: submit_all_def)
  also have "\<dots> = (st\<lparr>tempParams := Some (r p a)\<rparr>)\<lparr>tempParams := Some (foldl r (r p a) acts)\<rparr>"
    unfolding step by (rule Cons.IH) simp
  finally show ?case by simp
qed

lemma submit_all_idle:
  assumes "tempParams st = None" and "acts \<noteq> []"
  shows "submit_all r q acts st
           = st\<lparr>tempParams := Some (foldl r q acts), timers := timers st @ [hd acts]\<rparr>"
proof -
  obtain a as where acts: "acts = a # as" using assms(2) by (cases acts) auto
  have step: "changeParams r q a st = st\<lparr>tempParams := Some (r q a), timers := timers st @ [a]\<rparr>"
    using assms(1) by (simp add: changeParams_def)
  have "submit_all r q acts st = submit_all r q as (changeParams r q a st)"
    by (simp add: submit_all_def acts)
  also have "\<dots> = (changeParams r q a st)\<lparr>tempParams := Some (foldl r (r q a) as)\<rparr>"
    by (rule submit_all_pending) (simp add: step)
  finally show ?thesis by (simp add: step acts)
qed

lemma tick_idle:
  assumes "is_idle st" and "acts \<noteq> []"
  shows "tick r js qs d q acts st =
     st\<lparr>effects := effects st @
           [if d then SetLocalParams (Some (foldl r q acts))
            else Navigate (''?'' @ qs (search_object js (foldl r q acts)))
                   (type (hd acts) = SET_PAGE)]\<rparr>"
  using assms
  by (simp add: tick_def end_of_tick_def submit_all_idle is_idle_def flush_def)

text \<open>The query of a render that does not use the URL: the location is not read.\<close>

lemma useListParams_query_example:
  "useListParams_query JSON_parse_sample
      \<lparr>filterDefaultValues = Undefined, sort_opt = None, perPage_opt = None,
       disableSyncWithLocation = True\<rparr> [(''page'', Str ''7'')] None None
    = [(''filters'', Arr []), (''sort'', Str ''id''), (''order'', Str ''ASC''),
       (''perPage'', Num (Fin 10)), (''page'', Num (Fin 1))]"
  by code_simp

text \<open>
  Claim C2. For every non-empty sequence of actions submitted through
  \<^verbatim>\<open>changeParams\<close> within one tick, starting with nothing pending, exactly one callback
  is scheduled, and when it runs at the end of the tick it commits, in one effect, the
  reducer folded over the render's resolved \<^verbatim>\<open>query\<close> with the actions in call order
  (through \<^verbatim>\<open>setLocalParams\<close>, or through the one \<^verbatim>\<open>navigate\<close> when the URL is in
  use); nothing is pending afterwards. With a reducer whose set-page action sets the page,
  \<^verbatim>\<open>setPage(2)\<close> then \<^verbatim>\<open>setPage(5)\<close> commit page 5.
\<close>

theorem one_flush_per_tick:
  assumes "is_idle st" and "acts \<noteq> []"
  shows "timers (submit_all r query acts st) = [hd acts]
    \<and> tempParams (submit_all r query acts st) = Some (foldl r query acts)
    \<and> effects (submit_all r query acts st) = effects st
    \<and> effects (tick r js qs True query acts st)
         = effects st @ [SetLocalParams (Some (foldl r query acts))]
    \<and> effects (tick r js qs False query acts st)
         = effects st @ [Navigate (''?'' @ qs (search_object js (foldl r query acts)))
                           (type (hd acts) = SET_PAGE)]
    \<and> is_idle (tick r js qs d query acts st)
    \<and> ((\<forall>p n. js_get (r p (setPage n)) ''page'' = n) \<longrightarrow>
          js_get (foldl r query [setPage (Num (Fin 2)), setPage (Num (Fin 5))]) ''page''
            = Num (Fin 5))"
  using assms
  by (simp add: tick_idle submit_all_idle is_idle_def)

theorem one_flush_per_tick_witness:
  "is_idle idle \<and> [setPage (Num (Fin 2)), setPage (Num (Fin 5))] \<noteq> []
   \<and> useListParams_query JSON_parse_sample
        \<lparr>filterDefaultValues = Undefined, sort_opt = None, perPage_opt = None,
         disableSyncWithLocation = True\<rparr> [(''page'', Str ''7'')] None None
      = [(''filters'', Arr []), (''sort'', Str ''id''), (''order'', Str ''ASC''),
         (''perPage'', Num (Fin 10)), (''page'', Num (Fin 1))]
   \<and> timers (submit_all queryReducer_sample
        [(''filters'', Arr []), (''sort'', Str ''id''), (''order'', Str ''ASC''),
         (''perPage'', Num (Fin 10)), (''page'', Num (Fin 1))]
        [setPage (Num (Fin 2)), setPage (Num (Fin 5))] idle) = [setPage (Num (Fin 2))]
   \<and> effects (tick queryReducer_sample JSON_stringify_sample stringify_sample True
        [(''filters'', Arr []), (''sort'', Str ''id''), (''order'', Str ''ASC''),
         (''perPage'', Num (Fin 10)), (''page'', Num (Fin 1))]
        [setPage (Num (Fin 2)), setPage (Num (Fin 5))] idle)
      = [SetLocalParams (Some [(''filters'', Arr []), (''sort'', Str ''id''), (''order'', Str ''ASC''),
           (''perPage'', Num (Fin 10)), (''page'', Num (Fin 5))])]
   \<and> is_idle (tick queryReducer_sample JSON_stringify_sample stringify_sample True
        [(''filters'', Arr []), (''sort'', Str ''id''), (''order'', Str ''ASC''),
         (''perPage'', Num (Fin 10)), (''page'', Num (Fin 1))]
        [setPage (Num (Fin 2)), setPage (Num (Fin 5))] idle)"
  using one_flush_per_tick[of idle "[setPage (Num (Fin 2)), setPage (Num (Fin 5))]"
      queryReducer_sample "[(''filters'', Arr []), (''sort'', Str ''id''), (''order'', Str ''ASC''),
         (''perPage'', Num (Fin 10)), (''page'', Num (Fin 1))]"
      JSON_stringify_sample stringify_sample True]
    useListParams_query_example
  by (simp add: is_idle_def idle_def queryReducer_sample_def setPage_def js_set_def)

section \<open>Serialize, then resolve\<close>

lemma js_get_url_of:
  "distinct (keys obj) \<Longrightarrow>
   js_get (url_of obj) k = (case url_value (js_get obj k) of None \<Rightarrow> Undefined | Some w \<Rightarrow> w)"
proof (induction obj)
  case Nil
  then show ?case by (simp add: url_of_def List.map_filter_simps)
next
  case (Cons kv obj)
  obtain k' v where kv: "kv = (k', v)" by (cases kv)
  from Cons.prems have d: "distinct (keys obj)" and nk: "k' \<notin> set (keys obj)"
    by (simp_all add: keys_def kv)
  have tl: "url_of ((k', v) # obj) = (case url_value v of None \<Rightarrow> url_of obj | Some w \<Rightarrow> (k', w) # url_of obj)"
    by (simp add: url_of_def List.map_filter_simps split: option.splits)
  have absent: "js_get obj k' = Undefined" using nk by (rule js_get_Undefined)
  show ?case
    using Cons.IH[OF d] absent
    by (cases "k = k'") (auto simp: tl kv split: option.splits)
qed

lemma search_object_ParameterSet:
  "search_object js (ParameterSet pg pp srt ord fs df) =
     [(''page'', Num (Fin pg)), (''perPage'', Num (Fin pp)), (''sort'', Str srt),
      (''order'', Str ord), (''filters'', js (Arr fs)), (''displayedFilters'', js df)]"
  by (simp add: search_object_def ParameterSet_def js_set_def)

lemma Number_toString_safe: "\<bar>i\<bar> \<le> 2 ^ 53 \<Longrightarrow> Number_toString (Fin i) = show_int i"
  by simp

lemma js_get_url_of_ParameterSet:
  "js_get (url_of (search_object js (ParameterSet pg pp srt ord fs df))) k =
     (if k = ''page'' then Str (Number_toString (Fin pg))
      else if k = ''perPage'' then Str (Number_toString (Fin pp))
      else if k = ''sort'' then Str srt
      else if k = ''order'' then Str ord
      else if k = ''filters'' then (case url_value (js (Arr fs)) of None \<Rightarrow> Undefined | Some w \<Rightarrow> w)
      else if k = ''displayedFilters'' then (case url_value (js df) of None \<Rightarrow> Undefined | Some w \<Rightarrow> w)
      else Undefined)"
  by (subst js_get_url_of) (simp_all add: search_object_ParameterSet keys_def del: Number_toString.simps)

text \<open>
  Claim C3, amended. For every parameter set whose sort field is not empty, whose page
  and perPage are integers up to \<open>2^53\<close>, and whose filters JSON gives back unchanged
  (\<^verbatim>\<open>JSON.stringify\<close> writes them as a text that \<^verbatim>\<open>JSON.parse\<close> reads as the same
  filters), resolving the URL query that the flush writes for it (\<^verbatim>\<open>filters\<close> and
  \<^verbatim>\<open>displayedFilters\<close> through \<^verbatim>\<open>JSON.stringify\<close>) gives back its page, perPage,
  sort, order and filters, whatever the stored params and the defaults are.
\<close>

theorem serialize_resolve_roundtrip:
  assumes "srt \<noteq> []" and "\<bar>pg\<bar> \<le> 2 ^ 53" and "\<bar>pp\<bar> \<le> 2 ^ 53"
    and "JSON_stringify (Arr fs) = Str t" and "t \<noteq> []" and "JSON_parse t = Some (Arr fs)"
  shows "js_get (getQuery (parseQueryFromLocation JSON_parse
                   (url_of (search_object JSON_stringify (ParameterSet pg pp srt ord fs df))))
                 params fdv sp dpp) ''page'' = Num (Fin pg)
    \<and> js_get (getQuery (parseQueryFromLocation JSON_parse
                   (url_of (search_object JSON_stringify (ParameterSet pg pp srt ord fs df))))
                 params fdv sp dpp) ''perPage'' = Num (Fin pp)
    \<and> js_get (getQuery (parseQueryFromLocation JSON_parse
                   (url_of (search_object JSON_stringify (ParameterSet pg pp srt ord fs df))))
                 params fdv sp dpp) ''sort'' = Str srt
    \<and> js_get (getQuery (parseQueryFromLocation JSON_parse
                   (url_of (search_object JSON_stringify (ParameterSet pg pp srt ord fs df))))
                 params fdv sp dpp) ''order'' = Str ord
    \<and> js_get (getQuery (parseQueryFromLocation JSON_parse
                   (url_of (search_object JSON_stringify (ParameterSet pg pp srt ord fs df))))
                 params fdv sp dpp) ''filters'' = Arr fs"
proof -
  let ?U = "url_of (search_object JSON_stringify (ParameterSet pg pp srt ord fs df))"
  let ?q0 = "pickBy ?U (\<lambda>v k. k \<in> set validQueryParams)"
  let ?q1 = "parseObject JSON_parse ?q0 ''filters''"
  let ?P = "parsed_objects JSON_parse ?U"
  let ?Q = "parseQueryFromLocation JSON_parse ?U"
  have q0: "js_get ?q0 ''filters'' = Str t"
    using assms(4) by (simp add: js_get_pickBy js_get_url_of_ParameterSet)
  have q1: "?q1 = js_set ?q0 ''filters'' (Arr fs)"
    using q0 assms(5,6) by (rule parseObject_parsed)
  have filters: "js_get ?P ''filters'' = Arr fs"
    by (simp add: parsed_objects_def js_get_parseObject_other q1 js_get_js_set)
  have other: "js_get ?P k = js_get ?U k"
    if "k \<in> set validQueryParams" "k \<noteq> ''filters''" "k \<noteq> ''displayedFilters''" for k
    using that by (rule js_get_parsed_objects_other)
  have Q: "?Q = ?P"
    by (simp add: parseQueryFromLocation_unfold legacy_filter_def filters)
  have page: "js_get ?Q ''page'' = Str (show_int pg)"
    and perPage: "js_get ?Q ''perPage'' = Str (show_int pp)"
    and sort: "js_get ?Q ''sort'' = Str srt"
    and order: "js_get ?Q ''order'' = Str ord"
    using Number_toString_safe[OF assms(2)] Number_toString_safe[OF assms(3)]
    by (simp_all add: Q other js_get_url_of_ParameterSet del: Number_toString.simps)
  have "''page'' \<in> set (keys ?Q)"
    by (rule in_keys_if_defined) (simp add: page)
  then have "keys ?Q \<noteq> []" by auto
  then have base: "query_base ?Q params fdv = ?Q"
    by (simp add: query_base_def)
  show ?thesis
    using assms(1)
    by (simp add: getQuery_page getQuery_perPage getQuery_sort getQuery_order getQuery_other
        base page perPage sort order filters[folded Q] is_nullish_def getNumberOrDefault_Str
        parseInt_show_int)
qed

theorem serialize_resolve_roundtrip_witness:
  \<open>''title'' \<noteq> [] \<and> \<bar>3\<bar> \<le> (2 :: int) ^ 53 \<and> \<bar>25\<bar> \<le> (2 :: int) ^ 53
   \<and> JSON_stringify_sample
        (Arr [Obj [(''field'', Str ''published''), (''operator'', Str ''=''), (''value'', Bool True)]])
        = Str ''[{"field":"published","operator":"=","value":true}]''
   \<and> JSON_parse_sample ''[{"field":"published","operator":"=","value":true}]''
        = Some (Arr [Obj [(''field'', Str ''published''), (''operator'', Str ''=''),
                          (''value'', Bool True)]])
   \<and> js_get (getQuery (parseQueryFromLocation JSON_parse_sample
                (url_of (search_object JSON_stringify_sample
                   (ParameterSet 3 25 ''title'' ''DESC''
                      [Obj [(''field'', Str ''published''), (''operator'', Str ''=''),
                            (''value'', Bool True)]] (Obj [])))))
              (Some neutral_params) Undefined defaultSort (Fin 10)) ''page'' = Num (Fin 3)
   \<and> js_get (getQuery (parseQueryFromLocation JSON_parse_sample
                (url_of (search_object JSON_stringify_sample
                   (ParameterSet 3 25 ''title'' ''DESC''
                      [Obj [(''field'', Str ''published''), (''operator'', Str ''=''),
                            (''value'', Bool True)]] (Obj [])))))
              (Some neutral_params) Undefined defaultSort (Fin 10)) ''perPage'' = Num (Fin 25)
   \<and> js_get (getQuery (parseQueryFromLocation JSON_parse_sample
                (url_of (search_object JSON_stringify_sample
                   (ParameterSet 3 25 ''title'' ''DESC''
                      [Obj [(''field'', Str ''published''), (''operator'', Str ''=''),
                            (''value'', Bool True)]] (Obj [])))))
              (Some neutral_params) Undefined defaultSort (Fin 10)) ''sort'' = Str ''title''
   \<and> js_get (getQuery (parseQueryFromLocation JSON_parse_sample
                (url_of (search_object JSON_stringify_sample
                   (ParameterSet 3 25 ''title'' ''DESC''
                      [Obj [(''field'', Str ''published''), (''operator'', Str ''=''),
                            (''value'', Bool True)]] (Obj [])))))
              (Some neutral_params) Undefined defaultSort (Fin 10)) ''order'' = Str ''DESC''
   \<and> js_get (getQuery (parseQueryFromLocation JSON_parse_sample
                (url_of (search_object JSON_stringify_sample
                   (ParameterSet 3 25 ''title'' ''DESC''
                      [Obj [(''field'', Str ''published''), (''operator'', Str ''=''),
                            (''value'', Bool True)]] (Obj [])))))
              (Some neutral_params) Undefined defaultSort (Fin 10)) ''filters''
        = Arr [Obj [(''field'', Str ''published''), (''operator'', Str ''=''), (''value'', Bool True)]]\<close>
  using serialize_resolve_roundtrip[of "''title''" 3 25 JSON_stringify_sample
      "[Obj [(''field'', Str ''published''), (''operator'', Str ''=''), (''value'', Bool True)]]"
      \<open>''[{"field":"published","operator":"=","value":true}]''\<close> JSON_parse_sample
      "''DESC''" "Obj []" "Some neutral_params" Undefined defaultSort "Fin 10"]
  by (simp add: JSON_stringify_sample_def JSON_parse_sample_def FilterItem_def)

text \<open>The page \<open>10^21\<close>, as the flush writes it.\<close>

lemma Number_toString_1e21: "Number_toString (Fin 1000000000000000000000) = ''1e+21''"
  by (simp add: exponent_form_def show_nat.simps digit_char_table)

lemma url_of_1e21:
  "url_of (search_object JSON_stringify_sample
            (ParameterSet 1000000000000000000000 10 ''id'' ''ASC'' [] (Obj [])))
    = [(''page'', Str ''1e+21''), (''perPage'', Str ''10''), (''sort'', Str ''id''),
       (''order'', Str ''ASC''), (''filters'', Str ''[]''), (''displayedFilters'', Str ''{}'')]"
proof -
  have ten: "Number_toString (Fin 10) = ''10''"
    by (simp add: show_int_def show_nat.simps digit_char_table)
  show ?thesis
    using Number_toString_1e21 ten
    by (simp add: search_object_ParameterSet url_of_def List.map_filter_simps
        JSON_stringify_sample_def del: Number_toString.simps)
qed

text \<open>
  Claim C3 says this of every valid parameter set; the data model asks for
  \<^verbatim>\<open>page \<ge> 1\<close> and \<^verbatim>\<open>perPage \<ge> 1\<close> only. Three parameter sets that do not
  come back:
  \<^item> with the empty sort field, which \<^verbatim>\<open>setSort('')\<close> produces, the URL holds
    \<^verbatim>\<open>sort=\<close>, \<^verbatim>\<open>getQuery\<close> finds no sort (line 348) and writes the default sort
    field and the default order over both;
  \<^item> the page \<open>10^21\<close> is written as \<^verbatim>\<open>page=1e+21\<close>, from which \<^verbatim>\<open>parseInt\<close>
    reads 1;
  \<^item> a filter whose value is \<^verbatim>\<open>NaN\<close> is written by \<^verbatim>\<open>JSON.stringify\<close> with the
    value \<^verbatim>\<open>null\<close>, and comes back with that value.
\<close>

theorem roundtrip_counterexample:
  "js_get (ParameterSet 1 10 [] ''DESC'' [] (Obj [])) ''sort'' = Str []
   \<and> js_get (ParameterSet 1 10 [] ''DESC'' [] (Obj [])) ''order'' = Str ''DESC''
   \<and> js_get (getQuery (parseQueryFromLocation JSON_parse_sample
                (url_of (search_object JSON_stringify_sample
                   (ParameterSet 1 10 [] ''DESC'' [] (Obj [])))))
              None Undefined defaultSort (Fin 10)) ''sort'' = Str ''id''
   \<and> js_get (getQuery (parseQueryFromLocation JSON_parse_sample
                (url_of (search_object JSON_stringify_sample
                   (ParameterSet 1 10 [] ''DESC'' [] (Obj [])))))
              None Undefined defaultSort (Fin 10)) ''order'' = Str ''ASC''
   \<and> js_get (url_of (search_object JSON_stringify_sample
                (ParameterSet 1000000000000000000000 10 ''id'' ''ASC'' [] (Obj [])))) ''page''
        = Str ''1e+21''
   \<and> js_get (getQuery (parseQueryFromLocation JSON_parse_sample
                (url_of (search_object JSON_stringify_sample
                   (ParameterSet 1000000000000000000000 10 ''id'' ''ASC'' [] (Obj [])))))
              None Undefined defaultSort (Fin 10)) ''page'' = Num (Fin 1)
   \<and> js_get (getQuery (parseQueryFromLocation JSON_parse_sample
                (url_of (search_object JSON_stringify_sample
                   (ParameterSet 1 10 ''id'' ''ASC''
                      [Obj [(''field'', Str ''score''), (''operator'', Str ''=''),
                            (''value'', Num NaN)]] (Obj [])))))
              None Undefined defaultSort (Fin 10)) ''filters''
        = Arr [Obj [(''field'', Str ''score''), (''operator'', Str ''=''), (''value'', Null)]]"
proof -
  have empty_sort:
    "js_get (ParameterSet 1 10 [] ''DESC'' [] (Obj [])) ''sort'' = Str []
     \<and> js_get (ParameterSet 1 10 [] ''DESC'' [] (Obj [])) ''order'' = Str ''DESC''
     \<and> js_get (getQuery (parseQueryFromLocation JSON_parse_sample
                (url_of (search_object JSON_stringify_sample
                   (ParameterSet 1 10 [] ''DESC'' [] (Obj [])))))
              None Undefined defaultSort (Fin 10)) ''sort'' = Str ''id''
     \<and> js_get (getQuery (parseQueryFromLocation JSON_parse_sample
                (url_of (search_object JSON_stringify_sample
                   (ParameterSet 1 10 [] ''DESC'' [] (Obj [])))))
              None Undefined defaultSort (Fin 10)) ''order'' = Str ''ASC''"
    by code_simp
  have written: "js_get (url_of (search_object JSON_stringify_sample
                (ParameterSet 1000000000000000000000 10 ''id'' ''ASC'' [] (Obj [])))) ''page''
        = Str ''1e+21''"
    unfolding url_of_1e21 by simp
  have large_page: "js_get (getQuery (parseQueryFromLocation JSON_parse_sample
                (url_of (search_object JSON_stringify_sample
                   (ParameterSet 1000000000000000000000 10 ''id'' ''ASC'' [] (Obj [])))))
              None Undefined defaultSort (Fin 10)) ''page'' = Num (Fin 1)"
    unfolding url_of_1e21 by code_simp
  have nan_filter: "js_get (getQuery (parseQueryFromLocation JSON_parse_sample
                (url_of (search_object JSON_stringify_sample
                   (ParameterSet 1 10 ''id'' ''ASC''
                      [Obj [(''field'', Str ''score''), (''operator'', Str ''=''),
                            (''value'', Num NaN)]] (Obj [])))))
              None Undefined defaultSort (Fin 10)) ''filters''
        = Arr [Obj [(''field'', Str ''score''), (''operator'', Str ''=''), (''value'', Null)]]"
    by code_simp
  from empty_sort written large_page nan_filter show ?thesis by simp
qed

section \<open>The navigation of a batch\<close>

lemma js_get_search_object:
  "js_get (search_object js p) k =
     (if k = ''filters'' \<or> k = ''displayedFilters'' then js (js_get p k) else js_get p k)"
  by (auto simp: search_object_def js_get_js_set)

text \<open>
  Claim C9. With the URL in use, a batch of actions is flushed by exactly one call of
  \<^verbatim>\<open>navigate\<close>. Its search string is \<^verbatim>\<open>stringify\<close> of the pending parameter set
  with \<^verbatim>\<open>filters\<close> and \<^verbatim>\<open>displayedFilters\<close> replaced by their
  \<^verbatim>\<open>JSON.stringify\<close>, every other field as it is. Its \<^verbatim>\<open>_scrollToTop\<close> flag is
  true iff the first action of the batch, the one that created it, is a set-page action,
  whatever actions follow in the batch.
\<close>

theorem one_navigation_per_batch:
  assumes "is_idle st" and "acts \<noteq> []"
  shows "effects (tick r js qs False query acts st)
           = effects st @ [Navigate (''?'' @ qs (search_object js (foldl r query acts)))
                             (type (hd acts) = SET_PAGE)]
    \<and> js_get (search_object js (foldl r query acts)) ''filters''
         = js (js_get (foldl r query acts) ''filters'')
    \<and> js_get (search_object js (foldl r query acts)) ''displayedFilters''
         = js (js_get (foldl r query acts) ''displayedFilters'')
    \<and> (k \<noteq> ''filters'' \<and> k \<noteq> ''displayedFilters'' \<longrightarrow>
          js_get (search_object js (foldl r query acts)) k = js_get (foldl r query acts) k)
    \<and> effects (tick r js qs False query (hd acts # later) st)
           = effects st @ [Navigate (''?'' @ qs (search_object js (foldl r query (hd acts # later))))
                             (type (hd acts) = SET_PAGE)]"
  using assms tick_idle[of st acts r js qs False query]
    tick_idle[of st "hd acts # later" r js qs False query]
  by (simp add: js_get_search_object)

theorem one_navigation_per_batch_witness:
  "is_idle idle
   \<and> effects (tick queryReducer_sample JSON_stringify_sample stringify_sample False
        [(''page'', Num (Fin 1)), (''perPage'', Num (Fin 10)), (''sort'', Str ''id''),
         (''order'', Str ''ASC''), (''filters'', Arr [])]
        [setPage (Num (Fin 5)), setPerPage (Num (Fin 25))] idle)
      = [Navigate ''?filters=%5B%5D&order=ASC&page=1&perPage=25&sort=id'' True]
   \<and> effects (tick queryReducer_sample JSON_stringify_sample stringify_sample False
        [(''page'', Num (Fin 1)), (''perPage'', Num (Fin 10)), (''sort'', Str ''id''),
         (''order'', Str ''ASC''), (''filters'', Arr [])]
        [setPerPage (Num (Fin 25)), setPage (Num (Fin 2))] idle)
      = [Navigate ''?filters=%5B%5D&order=ASC&page=2&perPage=25&sort=id'' False]"
  using one_navigation_per_batch[of idle "[setPage (Num (Fin 5)), setPerPage (Num (Fin 25))]"
      queryReducer_sample JSON_stringify_sample stringify_sample
      "[(''page'', Num (Fin 1)), (''perPage'', Num (Fin 10)), (''sort'', Str ''id''),
         (''order'', Str ''ASC''), (''filters'', Arr [])]" "''page''" "[]"]
    one_navigation_per_batch[of idle "[setPerPage (Num (Fin 25)), setPage (Num (Fin 2))]"
      queryReducer_sample JSON_stringify_sample stringify_sample
      "[(''page'', Num (Fin 1)), (''perPage'', Num (Fin 10)), (''sort'', Str ''id''),
         (''order'', Str ''ASC''), (''filters'', Arr [])]" "''page''" "[]"]
  by (simp add: is_idle_def idle_def queryReducer_sample_def setPage_def setPerPage_def js_set_def
      search_object_def JSON_stringify_sample_def stringify_sample_def)

end
